theory Spec2Isabelle
  imports Main "HOL-Library.Sublist"
begin

section \<open>Values of a parsed document\<close>

text \<open>
  \<^verbatim>\<open>yaml.safe_load\<close> returns Python objects: \<^verbatim>\<open>None\<close>, \<^verbatim>\<open>bool\<close>, \<^verbatim>\<open>int\<close>,
  \<^verbatim>\<open>float\<close>, \<^verbatim>\<open>datetime.date\<close>/\<^verbatim>\<open>datetime.datetime\<close>, \<^verbatim>\<open>str\<close>, \<^verbatim>\<open>list\<close>
  and \<^verbatim>\<open>dict\<close>. The program never computes with a float or a date: it tests their
  truth value, prints them and multiplies a float by \<^verbatim>\<open>inch\<close>. A float is therefore
  given by whether it is non-zero and by its \<^verbatim>\<open>str()\<close> (which is also its
  \<^verbatim>\<open>repr()\<close>), a date by its \<^verbatim>\<open>str()\<close> and its \<^verbatim>\<open>repr()\<close>. A string is the list
  of the bytes of its UTF-8 encoding. A dict is the list of its items in insertion
  order, which is the order \<^verbatim>\<open>.items()\<close> yields. Documents are trees: YAML anchors
  that make two places share one object, and the tags \<^verbatim>\<open>!!binary\<close> and \<^verbatim>\<open>!!set\<close>,
  are not covered.
\<close>

datatype yaml =
    YNull
  | YBool bool
  | YInt int
  | YFloat bool string
  | YDate string string
  | YStr string
  | YList "yaml list"
  | YDict "(yaml \<times> yaml) list"

text \<open>
  The exceptions the program does not catch: those Python raises on ill-typed data, and
  those the constructors of the layout library raise (\<^verbatim>\<open>ValueError\<close> on text it cannot
  parse).
\<close>

datatype exn = TypeError | AttributeError | KeyError | OSError | ValueError

text \<open>The three \<^verbatim>\<open>ValueError\<close>s that \<^verbatim>\<open>_load_yaml\<close> raises, by their message.\<close>

datatype invalid = Empty_file | Missing_personal | Missing_name

text \<open>
  Every way a run ends other than with success. \<open>NotFound\<close>, \<open>YAMLError\<close> and
  \<open>ValidationError\<close> are the three handlers of \<^verbatim>\<open>_load_yaml\<close>, \<open>RenderError\<close> the
  handler around \<^verbatim>\<open>doc.build\<close>, \<open>Usage\<close> the missing argument of \<^verbatim>\<open>main\<close>; each
  prints its message and calls \<^verbatim>\<open>sys.exit(1)\<close>. \<open>Uncaught\<close> is an exception no
  handler catches, which ends the interpreter with a traceback.
\<close>

datatype error =
    NotFound
  | YAMLError
  | ValidationError invalid
  | Uncaught exn
  | RenderError
  | Usage

text \<open>Sequencing of fallible steps: the first exception ends the computation.\<close>

definition bind :: "error + 'a \<Rightarrow> ('a \<Rightarrow> error + 'b) \<Rightarrow> error + 'b" where
  "bind m f = (case m of Inl e \<Rightarrow> Inl e | Inr x \<Rightarrow> f x)"

subsection \<open>Python's operations on these values\<close>

text \<open>\<^verbatim>\<open>bool(v)\<close>, the test of \<^verbatim>\<open>if v:\<close> and \<^verbatim>\<open>not v\<close>.\<close>

fun truthy :: "yaml \<Rightarrow> bool" where
  "truthy YNull = False"
| "truthy (YBool b) = b"
| "truthy (YInt i) = (i \<noteq> 0)"
| "truthy (YFloat nz s) = nz"
| "truthy (YDate s r) = True"
| "truthy (YStr s) = (s \<noteq> [])"
| "truthy (YList xs) = (xs \<noteq> [])"
| "truthy (YDict kvs) = (kvs \<noteq> [])"

text \<open>\<^verbatim>\<open>isinstance(v, str)\<close>, \<^verbatim>\<open>isinstance(v, list)\<close>, \<^verbatim>\<open>isinstance(v, dict)\<close>.\<close>

fun is_str :: "yaml \<Rightarrow> bool" where
  "is_str (YStr s) = True"
| "is_str v = False"

fun is_list :: "yaml \<Rightarrow> bool" where
  "is_list (YList xs) = True"
| "is_list v = False"

fun is_dict :: "yaml \<Rightarrow> bool" where
  "is_dict (YDict kvs) = True"
| "is_dict v = False"

text \<open>\<^verbatim>\<open>sep.join(parts)\<close> on strings.\<close>

fun join_str :: "string \<Rightarrow> string list \<Rightarrow> string" where
  "join_str sep [] = []"
| "join_str sep [s] = s"
| "join_str sep (s # t # ss) = s @ sep @ join_str sep (t # ss)"

text \<open>Decimal digits of an integer, as \<^verbatim>\<open>str\<close> prints it.\<close>

definition digit_char :: "nat \<Rightarrow> char" where
  "digit_char d = char_of (48 + d)"

fun dec_nat :: "nat \<Rightarrow> string" where
  "dec_nat n = (if n < 10 then [digit_char n] else dec_nat (n div 10) @ [digit_char (n mod 10)])"

definition str_int :: "int \<Rightarrow> string" where
  "str_int i = (if i < 0 then CHR ''-'' # dec_nat (nat (- i)) else dec_nat (nat i))"

text \<open>
  \<^verbatim>\<open>repr\<close> of a string: double quotes when the string has a single quote and no
  double quote, single quotes otherwise; backslash, the quote, newline, carriage return
  and tab escaped, the other ASCII control characters written \<^verbatim>\<open>\xNN\<close>. Python also
  escapes the non-ASCII code points it counts as not printable; here the bytes from
  0x80 on stay as they are.
\<close>

definition hex_digit :: "nat \<Rightarrow> char" where
  "hex_digit d = (if d < 10 then char_of (48 + d) else char_of (87 + d))"

definition repr_char :: "char \<Rightarrow> char \<Rightarrow> string" where
  "repr_char q c =
     (if c = CHR 0x5C then [CHR 0x5C, CHR 0x5C]
      else if c = q then [CHR 0x5C, q]
      else if c = CHR 0x0A then [CHR 0x5C, CHR ''n'']
      else if c = CHR 0x0D then [CHR 0x5C, CHR ''r'']
      else if c = CHR 0x09 then [CHR 0x5C, CHR ''t'']
      else if (of_char c :: nat) < 32 \<or> (of_char c :: nat) = 127
        then [CHR 0x5C, CHR ''x'', hex_digit ((of_char c :: nat) div 16),
              hex_digit ((of_char c :: nat) mod 16)]
      else [c])"

definition repr_str :: "string \<Rightarrow> string" where
  "repr_str s =
     (let q = (if CHR 0x27 \<in> set s \<and> CHR 0x22 \<notin> set s then CHR 0x22 else CHR 0x27)
      in q # concat (map (repr_char q) s) @ [q])"

text \<open>\<^verbatim>\<open>repr(v)\<close>, which \<^verbatim>\<open>str\<close> of a list or a dict applies to the elements.\<close>

primrec py_repr :: "yaml \<Rightarrow> string" where
  "py_repr YNull = ''None''"
| "py_repr (YBool b) = (if b then ''True'' else ''False'')"
| "py_repr (YInt i) = str_int i"
| "py_repr (YFloat nz s) = s"
| "py_repr (YDate s r) = r"
| "py_repr (YStr s) = repr_str s"
| "py_repr (YList xs) = ''['' @ join_str '', '' (map py_repr xs) @ '']''"
| "py_repr (YDict kvs) =
     ''{'' @ join_str '', '' (map (\<lambda>(k, v). k @ '': '' @ v) (map (map_prod py_repr py_repr) kvs)) @ ''}''"

text \<open>\<^verbatim>\<open>str(v)\<close>, which is also what an f-string field \<^verbatim>\<open>{v}\<close> prints.\<close>

fun py_str :: "yaml \<Rightarrow> string" where
  "py_str (YStr s) = s"
| "py_str (YDate s r) = s"
| "py_str v = py_repr v"

text \<open>
  \<^verbatim>\<open>s.lower()\<close> on the ASCII letters. Python lowers the other letters too, through
  the Unicode tables; the program only compares the result with \<^verbatim>\<open>'present'\<close>, and
  no code point outside ASCII lowers to one of its letters.
\<close>

definition lower_char :: "char \<Rightarrow> char" where
  "lower_char c =
     (if 65 \<le> (of_char c :: nat) \<and> (of_char c :: nat) \<le> 90 then char_of ((of_char c :: nat) + 32) else c)"

definition py_lower :: "string \<Rightarrow> string" where
  "py_lower s = map lower_char s"

text \<open>\<^verbatim>\<open>s.replace(' ', '_')\<close>.\<close>

definition replace_spaces :: "string \<Rightarrow> string" where
  "replace_spaces s = map (\<lambda>c. if c = CHR '' '' then CHR ''_'' else c) s"

text \<open>
  \<^verbatim>\<open>s.title()\<close> on the ASCII letters: a letter that follows a letter is lowered, any
  other letter is raised. The bytes from 0x80 on stay as they are and count as no
  letter, so the result is Python's for a label in ASCII.
\<close>

definition is_ascii_letter :: "char \<Rightarrow> bool" where
  "is_ascii_letter c =
     ((65 \<le> (of_char c :: nat) \<and> (of_char c :: nat) \<le> 90) \<or>
      (97 \<le> (of_char c :: nat) \<and> (of_char c :: nat) \<le> 122))"

definition upper_char :: "char \<Rightarrow> char" where
  "upper_char c =
     (if 97 \<le> (of_char c :: nat) \<and> (of_char c :: nat) \<le> 122 then char_of ((of_char c :: nat) - 32) else c)"

fun title_from :: "bool \<Rightarrow> string \<Rightarrow> string" where
  "title_from previous_is_cased [] = []"
| "title_from previous_is_cased (c # cs) =
     (if previous_is_cased then lower_char c else upper_char c) # title_from (is_ascii_letter c) cs"

definition py_title :: "string \<Rightarrow> string" where
  "py_title s = title_from False s"

text \<open>
  The code points of a string, each as its UTF-8 bytes: what iterating over a
  \<^verbatim>\<open>str\<close> yields, and what \<^verbatim>\<open>strip\<close> looks at.
\<close>

definition utf8_tail :: "char \<Rightarrow> nat" where
  "utf8_tail c =
     (if (of_char c :: nat) < 0xC0 then 0
      else if (of_char c :: nat) < 0xE0 then 1
      else if (of_char c :: nat) < 0xF0 then 2
      else 3)"

fun py_chars :: "string \<Rightarrow> string list" where
  "py_chars [] = []"
| "py_chars (c # cs) = (c # take (utf8_tail c) cs) # py_chars (drop (utf8_tail c) cs)"

text \<open>
  The code points \<^verbatim>\<open>str.strip()\<close> removes: U+0009 to U+000D, U+001C to U+0020,
  U+0085, U+00A0, U+1680, U+2000 to U+200A, U+2028, U+2029, U+202F, U+205F, U+3000.
\<close>

definition is_space :: "string \<Rightarrow> bool" where
  "is_space cp =
     (case cp of
        [c] \<Rightarrow> (9 \<le> (of_char c :: nat) \<and> (of_char c :: nat) \<le> 13) \<or>
               (28 \<le> (of_char c :: nat) \<and> (of_char c :: nat) \<le> 32)
      | [a, b] \<Rightarrow> a = CHR 0xC2 \<and> (b = CHR 0x85 \<or> b = CHR 0xA0)
      | [a, b, c] \<Rightarrow>
          (a = CHR 0xE1 \<and> b = CHR 0x9A \<and> c = CHR 0x80) \<or>
          (a = CHR 0xE2 \<and> b = CHR 0x80 \<and>
             ((0x80 \<le> (of_char c :: nat) \<and> (of_char c :: nat) \<le> 0x8A) \<or>
              c = CHR 0xA8 \<or> c = CHR 0xA9 \<or> c = CHR 0xAF)) \<or>
          (a = CHR 0xE2 \<and> b = CHR 0x81 \<and> c = CHR 0x9F) \<or>
          (a = CHR 0xE3 \<and> b = CHR 0x80 \<and> c = CHR 0x80)
      | _ \<Rightarrow> False)"

definition py_strip :: "string \<Rightarrow> string" where
  "py_strip s = concat (rev (dropWhile is_space (rev (dropWhile is_space (py_chars s)))))"

text \<open>\<^verbatim>\<open>k in s\<close> for two strings: \<open>k\<close> occurs in \<open>s\<close>.\<close>

definition contains :: "string \<Rightarrow> string \<Rightarrow> bool" where
  "contains k s = list_ex (prefix k) (suffixes s)"

text \<open>A dict: the test \<^verbatim>\<open>k in d\<close> and \<^verbatim>\<open>d[k]\<close> behind it, \<^verbatim>\<open>d.get(k, dflt)\<close>, \<^verbatim>\<open>d[k] = v\<close>.\<close>

definition lookup :: "(yaml \<times> yaml) list \<Rightarrow> string \<Rightarrow> yaml option" where
  "lookup d k = map_of d (YStr k)"

definition get :: "(yaml \<times> yaml) list \<Rightarrow> string \<Rightarrow> yaml \<Rightarrow> yaml" where
  "get d k dflt = (case lookup d k of None \<Rightarrow> dflt | Some v \<Rightarrow> v)"

fun setitem :: "(yaml \<times> yaml) list \<Rightarrow> string \<Rightarrow> yaml \<Rightarrow> (yaml \<times> yaml) list" where
  "setitem [] k v = [(YStr k, v)]"
| "setitem ((k', v') # d) k v = (if k' = YStr k then (k', v) # d else (k', v') # setitem d k v)"

text \<open>
  The same operations on a value of any type, as the interpreter applies them:
  \<^verbatim>\<open>k in v\<close> is a key test on a dict, a membership test on a list, a substring test on
  a string, and a \<^verbatim>\<open>TypeError\<close> on anything else; only a dict has \<^verbatim>\<open>get\<close>; \<^verbatim>\<open>v[k]\<close>
  with a string \<open>k\<close> is a \<^verbatim>\<open>TypeError\<close> on anything but a dict.
\<close>

fun py_in :: "string \<Rightarrow> yaml \<Rightarrow> error + bool" where
  "py_in k (YDict d) = Inr (lookup d k \<noteq> None)"
| "py_in k (YList xs) = Inr (YStr k \<in> set xs)"
| "py_in k (YStr s) = Inr (contains k s)"
| "py_in k v = Inl (Uncaught TypeError)"

fun py_get :: "yaml \<Rightarrow> string \<Rightarrow> yaml \<Rightarrow> error + yaml" where
  "py_get (YDict d) k dflt = Inr (get d k dflt)"
| "py_get v k dflt = Inl (Uncaught AttributeError)"

fun py_item :: "yaml \<Rightarrow> string \<Rightarrow> error + yaml" where
  "py_item (YDict d) k = (case lookup d k of None \<Rightarrow> Inl (Uncaught KeyError) | Some v \<Rightarrow> Inr v)"
| "py_item v k = Inl (Uncaught TypeError)"

text \<open>
  What a \<^verbatim>\<open>for\<close> loop (and \<^verbatim>\<open>enumerate\<close>) iterates over: the elements of a list,
  the keys of a dict, the code points of a string; anything else is not iterable.
\<close>

fun py_iter :: "yaml \<Rightarrow> error + yaml list" where
  "py_iter (YList xs) = Inr xs"
| "py_iter (YDict d) = Inr (map fst d)"
| "py_iter (YStr s) = Inr (map YStr (py_chars s))"
| "py_iter v = Inl (Uncaught TypeError)"

text \<open>\<^verbatim>\<open>sep.join(xs)\<close> for a list: every element has to be a string.\<close>

definition py_join :: "string \<Rightarrow> yaml list \<Rightarrow> error + string" where
  "py_join sep xs =
     (if list_all is_str xs then Inr (join_str sep (map py_str xs)) else Inl (Uncaught TypeError))"

text \<open>
  \<^verbatim>\<open>x += s\<close> for a string \<open>s\<close>: a new string when \<open>x\<close> is a string; when \<open>x\<close> is a list,
  the list is extended in place by the code points of \<open>s\<close>; a \<^verbatim>\<open>TypeError\<close>
  otherwise.
\<close>

fun py_iadd :: "yaml \<Rightarrow> string \<Rightarrow> error + yaml" where
  "py_iadd (YStr a) s = Inr (YStr (a @ s))"
| "py_iadd (YList xs) s = Inr (YList (xs @ map YStr (py_chars s)))"
| "py_iadd v s = Inl (Uncaught TypeError)"

text \<open>
  \<^verbatim>\<open>v * inch\<close>, with \<^verbatim>\<open>inch = 72.0\<close>: defined on the numbers (a bool is one), a
  \<^verbatim>\<open>TypeError\<close> otherwise. The product is kept as the number of inches.
\<close>

fun times_inch :: "yaml \<Rightarrow> error + yaml" where
  "times_inch (YInt i) = Inr (YInt i)"
| "times_inch (YFloat nz s) = Inr (YFloat nz s)"
| "times_inch (YBool b) = Inr (YBool b)"
| "times_inch v = Inl (Uncaught TypeError)"

text \<open>\<^verbatim>\<open>name.replace(' ', '_')\<close> on a value of any type; a date has a \<^verbatim>\<open>replace\<close> of its own,
  which refuses strings.\<close>

fun py_replace_spaces :: "yaml \<Rightarrow> error + string" where
  "py_replace_spaces (YStr s) = Inr (replace_spaces s)"
| "py_replace_spaces (YDate s r) = Inl (Uncaught TypeError)"
| "py_replace_spaces v = Inl (Uncaught AttributeError)"

text \<open>\<^verbatim>\<open>key.title()\<close> on a value of any type.\<close>

fun py_title_of :: "yaml \<Rightarrow> error + string" where
  "py_title_of (YStr s) = Inr (py_title s)"
| "py_title_of v = Inl (Uncaught AttributeError)"

text \<open>The bullet U+2022 and the separator of the contact line, in UTF-8.\<close>

definition bullet :: string where
  "bullet = [CHR 0xE2, CHR 0x80, CHR 0xA2]"

definition bullet_sep :: string where
  "bullet_sep = '' '' @ bullet @ '' ''"

section \<open>The date-range formatter\<close>

text \<open>
  \<^verbatim>\<open>_format_date_range(start_date, end_date=None, present=False)\<close>. The callers pass
  \<^verbatim>\<open>entry.get('start_date')\<close>, \<^verbatim>\<open>entry.get('end_date')\<close> and
  \<^verbatim>\<open>entry.get('present', False)\<close>, so an absent date is \<open>YNull\<close>.
\<close>

definition format_date_range :: "yaml \<Rightarrow> yaml \<Rightarrow> yaml \<Rightarrow> string" where
  "format_date_range start_date end_date present =
     (if \<not> truthy start_date then ''''
      else
        let start = (case start_date of YStr s \<Rightarrow> s | _ \<Rightarrow> py_str start_date)
        in if truthy present \<or> (truthy end_date \<and> py_lower (py_str end_date) = ''present'')
           then start @ '' - Present''
           else if truthy end_date then
             (let end = (case end_date of YStr s \<Rightarrow> s | _ \<Rightarrow> py_str end_date)
              in start @ '' - '' @ end)
           else start)"

section \<open>Content blocks\<close>

text \<open>
  The blocks of the layout library, as the program builds them. A paragraph holds the
  value it was given as text and the name of its style; the styles are made once by
  \<^verbatim>\<open>_create_styles\<close> from the resolved configuration and referred to by name. A spacer
  holds its height in inches: a configuration value, or one of the constants 0.03, 0.04
  and 0.2. The rule under a section header is always the same. A table holds its rows of
  cells; the program builds one shape only, a row of a title and a date.
\<close>

datatype style =
    Name | Contact | SectionHeader | ItemTitle | ItemSubtitle
  | DateRange | ResumeBody | Summary | SkillItem | Footer

datatype block =
    Paragraph yaml style
  | Spacer yaml
  | HRFlowable
  | Table "block list list"

section \<open>The generator\<close>

text \<open>The resolved configuration: the dict \<^verbatim>\<open>_load_config\<close> returns, by its keys.\<close>

record config =
  font_name :: yaml
  font_name_bold :: yaml
  font_name_italic :: yaml
  name_size :: yaml
  section_header_size :: yaml
  title_size :: yaml
  body_size :: yaml
  margin :: yaml
  section_spacing :: yaml
  item_spacing :: yaml
  section_order :: yaml
  footer :: yaml

text \<open>The attributes of a \<^verbatim>\<open>ResumeGenerator\<close>; \<open>story\<close> is the shared output sequence.\<close>

record generator =
  yaml_file :: string
  output_dir :: string
  data :: yaml
  config :: config
  story :: "block list"

text \<open>
  The layout library is outside the program. \<^verbatim>\<open>Paragraph(text, style)\<close> parses its text
  when it is called, with the fonts of its style, and raises on what it cannot take:
  markup that does not parse, a text that is not a string, a font it does not know. A
  \<open>constructor\<close> is that call with the style sheet in place: from the name of a style and
  the text to the exception raised, if any. The style sheet is made from the
  configuration and nothing else, so the \<open>library\<close> is given the configuration for it.
  \<^verbatim>\<open>Spacer\<close> and \<^verbatim>\<open>HRFlowable\<close> store what they are given, and so does \<^verbatim>\<open>Table\<close> on
  the one shape the program builds.
\<close>

type_synonym constructor = "style \<Rightarrow> yaml \<Rightarrow> exn option"

type_synonym library = "config \<Rightarrow> constructor"

text \<open>
  What is outside the program: the file behind a path (missing, not YAML, or the
  parsed document), whether the output directory can be made, the paragraph constructor
  of the layout library, and whether the \<^verbatim>\<open>try\<close> block of \<^verbatim>\<open>generate\<close> runs to its end:
  the library builds the document from a path, a margin and the blocks, and the line
  that reports it is printed.
\<close>

datatype input = Missing | Malformed | Parsed yaml

record world =
  read_file :: "string \<Rightarrow> input"
  mkdir :: "string \<Rightarrow> bool"
  new_paragraph :: library
  doc_build :: "string \<times> string \<Rightarrow> yaml \<Rightarrow> block list \<Rightarrow> bool"

subsection \<open>Loading and validation\<close>

text \<open>\<^verbatim>\<open>_load_yaml\<close>: the \<^verbatim>\<open>try\<close> block, with the three handlers as the three errors.\<close>

definition load_yaml :: "input \<Rightarrow> error + yaml" where
  "load_yaml f =
     (case f of
        Missing \<Rightarrow> Inl NotFound
      | Malformed \<Rightarrow> Inl YAMLError
      | Parsed doc \<Rightarrow>
          if \<not> truthy doc then Inl (ValidationError Empty_file)
          else
            bind (py_in ''personal'' doc) (\<lambda>has_personal.
            if \<not> has_personal then Inl (ValidationError Missing_personal)
            else
              bind (py_item doc ''personal'') (\<lambda>personal.
              bind (py_in ''name'' personal) (\<lambda>has_name.
              if \<not> has_name then Inl (ValidationError Missing_name)
              else Inr doc))))"

subsection \<open>Configuration\<close>

definition default_section_order :: yaml where
  "default_section_order =
     YList [YStr ''summary'', YStr ''experience'', YStr ''education'', YStr ''skills'',
            YStr ''projects'', YStr ''certifications'', YStr ''awards'', YStr ''publications'',
            YStr ''languages'', YStr ''volunteer'']"

text \<open>
  \<^verbatim>\<open>_load_config\<close>. The entries of the dict are evaluated in the order written; once
  \<^verbatim>\<open>config.get('fonts', {})\<close> has returned, \<^verbatim>\<open>config\<close> is a dict, and once the first
  \<^verbatim>\<open>fonts.get\<close> has returned, \<^verbatim>\<open>fonts\<close> is one.
\<close>

definition load_config :: "yaml \<Rightarrow> error + config" where
  "load_config doc =
     bind (py_get doc ''config'' (YDict [])) (\<lambda>conf.
     bind (py_get conf ''fonts'' (YDict [])) (\<lambda>fonts.
     bind (py_get fonts ''name'' (YStr ''Helvetica'')) (\<lambda>v1.
     bind (py_get fonts ''name_bold'' (YStr ''Helvetica-Bold'')) (\<lambda>v2.
     bind (py_get fonts ''name_italic'' (YStr ''Helvetica-Oblique'')) (\<lambda>v3.
     bind (py_get fonts ''name_size'' (YInt 20)) (\<lambda>v4.
     bind (py_get fonts ''section_header_size'' (YInt 12)) (\<lambda>v5.
     bind (py_get fonts ''title_size'' (YInt 10)) (\<lambda>v6.
     bind (py_get fonts ''body_size'' (YInt 9)) (\<lambda>v7.
     bind (py_get conf ''margin'' (YFloat True ''0.6'')) (\<lambda>v8.
     bind (py_get conf ''section_spacing'' (YFloat True ''0.08'')) (\<lambda>v9.
     bind (py_get conf ''item_spacing'' (YFloat True ''0.06'')) (\<lambda>v10.
     bind (py_get conf ''section_order'' default_section_order) (\<lambda>v11.
     bind (py_get conf ''footer'' (YBool False)) (\<lambda>v12.
     Inr \<lparr>font_name = v1, font_name_bold = v2, font_name_italic = v3, name_size = v4,
          section_header_size = v5, title_size = v6, body_size = v7, margin = v8,
          section_spacing = v9, item_spacing = v10, section_order = v11,
          footer = v12\<rparr>))))))))))))))"

text \<open>
  \<^verbatim>\<open>__init__\<close>: make the output directory, load, resolve the configuration, start with
  an empty story. (\<^verbatim>\<open>_create_styles\<close> reads the configuration and calls the library
  only.)
\<close>

definition init :: "world \<Rightarrow> string \<Rightarrow> string \<Rightarrow> error + generator" where
  "init w path dir =
     (if \<not> mkdir w dir then Inl (Uncaught OSError)
      else
        bind (load_yaml (read_file w path)) (\<lambda>d.
        bind (load_config d) (\<lambda>c.
        Inr \<lparr>yaml_file = path, output_dir = dir, data = d, config = c, story = []\<rparr>)))"

subsection \<open>Appending to the story\<close>

text \<open>
  A statement that appends to \<^verbatim>\<open>self.story\<close> is a step from the story before to the
  story after, or to the exception it raises. \<open>chain\<close> runs steps one after the other,
  \<open>for_each\<close> is the \<^verbatim>\<open>for\<close> loop over a list, \<open>iterate\<close> the loop over a value of
  any type, \<open>only_if\<close> the \<^verbatim>\<open>if\<close> without \<^verbatim>\<open>else\<close>.
\<close>

primrec chain :: "('s \<Rightarrow> error + 's) list \<Rightarrow> 's \<Rightarrow> error + 's" where
  "chain [] s = Inr s"
| "chain (f # fs) s = bind (f s) (chain fs)"

definition for_each :: "('a \<Rightarrow> 's \<Rightarrow> error + 's) \<Rightarrow> 'a list \<Rightarrow> 's \<Rightarrow> error + 's" where
  "for_each body xs = chain (map body xs)"

definition only_if :: "bool \<Rightarrow> ('s \<Rightarrow> error + 's) \<Rightarrow> 's \<Rightarrow> error + 's" where
  "only_if c f s = (if c then f s else Inr s)"

definition skip :: "'s \<Rightarrow> error + 's" where
  "skip s = Inr s"

text \<open>A statement that raises.\<close>

definition raise :: "exn \<Rightarrow> 's \<Rightarrow> error + 's" where
  "raise e s = Inl (Uncaught e)"

text \<open>A step that first computes a value, which may raise, and goes on with it.\<close>

definition compute :: "error + 'a \<Rightarrow> ('a \<Rightarrow> 's \<Rightarrow> error + 's) \<Rightarrow> 's \<Rightarrow> error + 's" where
  "compute m f s = bind m (\<lambda>x. f x s)"

definition iterate :: "yaml \<Rightarrow> (yaml \<Rightarrow> 's \<Rightarrow> error + 's) \<Rightarrow> 's \<Rightarrow> error + 's" where
  "iterate v body = compute (py_iter v) (for_each body)"

text \<open>\<^verbatim>\<open>for i, x in enumerate(v)\<close>.\<close>

definition iterate_enumerated :: "yaml \<Rightarrow> (nat \<times> yaml \<Rightarrow> 's \<Rightarrow> error + 's) \<Rightarrow> 's \<Rightarrow> error + 's" where
  "iterate_enumerated v body = compute (py_iter v) (\<lambda>xs. for_each body (enumerate 0 xs))"

text \<open>
  The exceptions that building a block raises, in the order in which its paragraphs are
  constructed: the cells of a table before the table.
\<close>

primrec raised :: "constructor \<Rightarrow> block \<Rightarrow> exn list" where
  "raised mk (Paragraph text st) = (case mk st text of None \<Rightarrow> [] | Some e \<Rightarrow> [e])"
| "raised mk (Spacer h) = []"
| "raised mk HRFlowable = []"
| "raised mk (Table rows) = concat (concat (map (map (raised mk)) rows))"

text \<open>
  \<^verbatim>\<open>self.story.append(b)\<close> for each \<open>b\<close> of \<open>bs\<close>, in order, each built where it is
  appended: the first exception of a constructor ends the run.
\<close>

definition emit :: "constructor \<Rightarrow> block list \<Rightarrow> block list \<Rightarrow> error + block list" where
  "emit mk bs s =
     (case concat (map (raised mk) bs) of
        [] \<Rightarrow> Inr (s @ bs)
      | e # es \<Rightarrow> Inl (Uncaught e))"

text \<open>\<^verbatim>\<open>self.story.append(Spacer(1, v*inch))\<close>.\<close>

definition spacer_inch :: "constructor \<Rightarrow> yaml \<Rightarrow> block list \<Rightarrow> error + block list" where
  "spacer_inch mk v = compute (times_inch v) (\<lambda>h. emit mk [Spacer h])"

text \<open>\<^verbatim>\<open>_add_section_header\<close>: the header paragraph and the rule under it.\<close>

definition add_section_header :: "constructor \<Rightarrow> string \<Rightarrow> block list \<Rightarrow> error + block list" where
  "add_section_header mk title = emit mk [Paragraph (YStr title) SectionHeader, HRFlowable]"

text \<open>
  The one-row table of a title and a date that five renderers build, with the same
  column widths and table style each time.
\<close>

definition title_row :: "yaml \<Rightarrow> yaml \<Rightarrow> block" where
  "title_row title date = Table [[Paragraph title ItemTitle, Paragraph date DateRange]]"

text \<open>The paragraph of \<^verbatim>\<open>f"\<bullet> {highlight}"\<close>, with the bullet U+2022.\<close>

definition bullet_line :: "yaml \<Rightarrow> block" where
  "bullet_line h = Paragraph (YStr (bullet @ '' '' @ py_str h)) ResumeBody"

text \<open>
  The line of the company (or institution) and its location, which
  \<^verbatim>\<open>_build_experience\<close> and \<^verbatim>\<open>_build_education\<close> write the same way:
  \<^verbatim>\<open>if org: text = org; if location: text += f" \<bullet> {location}"; append(Paragraph(text))\<close>.
\<close>

definition subtitle :: "constructor \<Rightarrow> yaml \<Rightarrow> yaml \<Rightarrow> block list \<Rightarrow> error + block list" where
  "subtitle mk org location =
     only_if (truthy org)
       (compute (if truthy location then py_iadd org (bullet_sep @ py_str location) else Inr org)
          (\<lambda>text. emit mk [Paragraph text ItemSubtitle]))"

text \<open>
  When the company is a list, that \<^verbatim>\<open>+=\<close> extends the list of the document itself.
  \<open>entry_after key\<close> is the entry once the loop body has run; \<open>entries_after\<close> is the
  document once the loop over the entries of a section has.
\<close>

definition entry_after :: "string \<Rightarrow> yaml \<Rightarrow> yaml" where
  "entry_after key entry =
     (case entry of
        YDict e \<Rightarrow>
          (case lookup e key of
             Some (YList xs) \<Rightarrow>
               if xs \<noteq> [] \<and> truthy (get e ''location'' (YStr ''''))
               then YDict (setitem e key
                      (YList (xs @ map YStr (py_chars (bullet_sep @ py_str (get e ''location'' (YStr '''')))))))
               else entry
           | _ \<Rightarrow> entry)
      | _ \<Rightarrow> entry)"

definition entries_after :: "string \<Rightarrow> string \<Rightarrow> yaml \<Rightarrow> yaml" where
  "entries_after section_key key doc =
     (case doc of
        YDict d \<Rightarrow>
          (case lookup d section_key of
             Some (YList xs) \<Rightarrow> YDict (setitem d section_key (YList (map (entry_after key) xs)))
           | _ \<Rightarrow> doc)
      | _ \<Rightarrow> doc)"

text \<open>A run of steps on the story of the generator.\<close>

definition on_story ::
  "(block list \<Rightarrow> error + block list) \<Rightarrow> generator \<Rightarrow> error + generator" where
  "on_story f g = bind (f (story g)) (\<lambda>s. Inr (g\<lparr>story := s\<rparr>))"

text \<open>
  How every renderer but the summary begins:
  \<^verbatim>\<open>if key not in self.data: return\<close>, \<^verbatim>\<open>v = self.data[key]\<close>,
  \<^verbatim>\<open>if not v: return\<close>.
\<close>

definition with_section ::
  "string \<Rightarrow> (yaml \<Rightarrow> generator \<Rightarrow> error + generator) \<Rightarrow> generator \<Rightarrow> error + generator" where
  "with_section key body g =
     bind (py_in key (data g)) (\<lambda>has.
     if \<not> has then Inr g
     else
       bind (py_item (data g) key) (\<lambda>v.
       if \<not> truthy v then Inr g else body v g))"

subsection \<open>The header\<close>

text \<open>\<^verbatim>\<open>if k in d: parts.append(d[k])\<close>, as the list of what is appended.\<close>

definition present_value :: "(yaml \<times> yaml) list \<Rightarrow> string \<Rightarrow> yaml list" where
  "present_value d k = (case lookup d k of None \<Rightarrow> [] | Some v \<Rightarrow> [v])"

definition contact_parts :: "(yaml \<times> yaml) list \<Rightarrow> error + yaml list" where
  "contact_parts personal =
     bind (case lookup personal ''location'' of
             None \<Rightarrow> Inr []
           | Some (YDict location) \<Rightarrow>
               bind (py_join '', '' (present_value location ''city'' @ present_value location ''state'' @
                                     present_value location ''country''))
                 (\<lambda>t. Inr [YStr t])
           | Some location \<Rightarrow> Inr [YStr (py_str location)])
       (\<lambda>loc. Inr (present_value personal ''email'' @ present_value personal ''phone'' @ loc))"

definition contact_line :: "constructor \<Rightarrow> (yaml \<times> yaml) list \<Rightarrow> block list \<Rightarrow> error + block list" where
  "contact_line mk personal =
     compute (contact_parts personal) (\<lambda>parts.
     only_if (parts \<noteq> [])
       (compute (py_join bullet_sep parts) (\<lambda>t. emit mk [Paragraph (YStr t) Contact])))"

definition link_part :: "yaml \<times> yaml \<Rightarrow> string list \<Rightarrow> error + string list" where
  "link_part kv link_parts =
     (case kv of (key, v) \<Rightarrow>
        if truthy v then bind (py_title_of key) (\<lambda>t. Inr (link_parts @ [t @ '': '' @ py_str v]))
        else Inr link_parts)"

definition links_line :: "constructor \<Rightarrow> yaml \<Rightarrow> block list \<Rightarrow> error + block list" where
  "links_line mk links =
     only_if (truthy links)
       (case links of
          YDict d \<Rightarrow>
            compute (for_each link_part d []) (\<lambda>link_parts.
            only_if (link_parts \<noteq> []) (emit mk [Paragraph (YStr (join_str bullet_sep link_parts)) Contact]))
        | _ \<Rightarrow> raise AttributeError)"

definition build_header :: "library \<Rightarrow> generator \<Rightarrow> error + generator" where
  "build_header lib g =
     bind (py_get (data g) ''personal'' (YDict [])) (\<lambda>personal.
     case personal of
       YDict p \<Rightarrow>
         on_story (chain [emit (lib (config g)) [Paragraph (get p ''name'' (YStr '''')) Name],
                          contact_line (lib (config g)) p,
                          links_line (lib (config g)) (get p ''links'' (YDict [])),
                          spacer_inch (lib (config g)) (section_spacing (config g))]) g
     | _ \<Rightarrow> Inl (Uncaught AttributeError))"

subsection \<open>The section renderers\<close>

definition build_summary :: "library \<Rightarrow> generator \<Rightarrow> error + generator" where
  "build_summary lib g =
     bind (py_in ''summary'' (data g)) (\<lambda>has.
     if \<not> has then Inr g
     else
       bind (py_item (data g) ''summary'') (\<lambda>summary.
       bind (case summary of
               YStr t \<Rightarrow> Inr (Some t)
             | YList xs \<Rightarrow> bind (py_join '' '' xs) (\<lambda>t. Inr (Some t))
             | _ \<Rightarrow> Inr None) (\<lambda>summary_text.
       case summary_text of
         None \<Rightarrow> Inr g
       | Some t \<Rightarrow>
           if t \<noteq> [] then
             on_story (chain [add_section_header (lib (config g)) ''PROFESSIONAL SUMMARY'',
                              emit (lib (config g)) [Paragraph (YStr t) Summary],
                              spacer_inch (lib (config g)) (item_spacing (config g))]) g
           else Inr g)))"

text \<open>The only loop over highlights that skips the empty and the blank ones.\<close>

definition experience_highlight :: "constructor \<Rightarrow> yaml \<Rightarrow> block list \<Rightarrow> error + block list" where
  "experience_highlight mk highlight =
     only_if (truthy highlight)
       (case highlight of
          YStr t \<Rightarrow> only_if (py_strip t \<noteq> []) (emit mk [bullet_line highlight])
        | _ \<Rightarrow> raise AttributeError)"

definition experience_item :: "constructor \<Rightarrow> config \<Rightarrow> nat \<times> yaml \<Rightarrow> block list \<Rightarrow> error + block list" where
  "experience_item mk c ix =
     (case ix of (i, exp) \<Rightarrow>
        chain
          [only_if (i > 0) (spacer_inch mk (item_spacing c)),
           (case exp of
              YDict e \<Rightarrow>
                chain
                  [emit mk [title_row (get e ''title'' (YStr ''''))
                           (YStr (format_date_range (get e ''start_date'' YNull) (get e ''end_date'' YNull)
                                    (get e ''present'' (YBool False))))],
                   subtitle mk (get e ''company'' (YStr '''')) (get e ''location'' (YStr '''')),
                   (case lookup e ''description'' of
                      Some d \<Rightarrow>
                        only_if (truthy d) (emit mk [Spacer (YFloat True ''0.03''), Paragraph d ResumeBody])
                    | None \<Rightarrow> skip),
                   (case lookup e ''highlights'' of
                      Some highlights \<Rightarrow>
                        only_if (truthy highlights)
                          (chain [emit mk [Spacer (YFloat True ''0.03'')],
                                  iterate highlights (experience_highlight mk)])
                    | None \<Rightarrow> skip)]
            | _ \<Rightarrow> raise AttributeError)])"

definition build_experience :: "library \<Rightarrow> generator \<Rightarrow> error + generator" where
  "build_experience lib =
     with_section ''experience'' (\<lambda>experiences g.
       bind (on_story (chain [add_section_header (lib (config g)) ''PROFESSIONAL EXPERIENCE'',
                              iterate_enumerated experiences (experience_item (lib (config g)) (config g)),
                              spacer_inch (lib (config g)) (section_spacing (config g))]) g)
         (\<lambda>g'. Inr (g'\<lparr>data := entries_after ''experience'' ''company'' (data g')\<rparr>)))"

definition education_item :: "constructor \<Rightarrow> config \<Rightarrow> nat \<times> yaml \<Rightarrow> block list \<Rightarrow> error + block list" where
  "education_item mk c ix =
     (case ix of (i, edu) \<Rightarrow>
        chain
          [only_if (i > 0) (spacer_inch mk (item_spacing c)),
           (case edu of
              YDict e \<Rightarrow>
                let degree = get e ''degree'' (YStr '''');
                    field = get e ''field'' (YStr '''');
                    degree_text =
                      (if truthy degree \<and> truthy field
                         then YStr (py_str degree @ '' in '' @ py_str field)
                       else if truthy degree then degree
                       else if truthy field then field
                       else YStr '''');
                    date_range = format_date_range (get e ''start_date'' YNull) (get e ''end_date'' YNull)
                                   (get e ''present'' (YBool False));
                    details =
                      (case lookup e ''gpa'' of Some gpa \<Rightarrow> [YStr (''GPA: '' @ py_str gpa)] | None \<Rightarrow> []) @
                      present_value e ''honors''
                in chain
                     [only_if (truthy degree_text) (emit mk [title_row degree_text (YStr date_range)]),
                      subtitle mk (get e ''institution'' (YStr '''')) (get e ''location'' (YStr '''')),
                      only_if (details \<noteq> [])
                        (compute (py_join bullet_sep details) (\<lambda>t. emit mk [Paragraph (YStr t) ResumeBody])),
                      (case lookup e ''highlights'' of
                         Some highlights \<Rightarrow>
                           only_if (truthy highlights) (iterate highlights (\<lambda>h. emit mk [bullet_line h]))
                       | None \<Rightarrow> skip)]
            | _ \<Rightarrow> raise AttributeError)])"

definition build_education :: "library \<Rightarrow> generator \<Rightarrow> error + generator" where
  "build_education lib =
     with_section ''education'' (\<lambda>education g.
       bind (on_story (chain [add_section_header (lib (config g)) ''EDUCATION'',
                              iterate_enumerated education (education_item (lib (config g)) (config g)),
                              spacer_inch (lib (config g)) (section_spacing (config g))]) g)
         (\<lambda>g'. Inr (g'\<lparr>data := entries_after ''education'' ''institution'' (data g')\<rparr>)))"

text \<open>\<^verbatim>\<open>', '.join(v) if isinstance(v, list) else str(v)\<close>.\<close>

definition joined_or_str :: "yaml \<Rightarrow> error + string" where
  "joined_or_str v = (case v of YList xs \<Rightarrow> py_join '', '' xs | _ \<Rightarrow> Inr (py_str v))"

definition skills_category :: "constructor \<Rightarrow> yaml \<times> yaml \<Rightarrow> block list \<Rightarrow> error + block list" where
  "skills_category mk kv =
     (case kv of (category, skill_list) \<Rightarrow>
        only_if (truthy skill_list)
          (compute (joined_or_str skill_list) (\<lambda>skills_text.
           emit mk [Paragraph (YStr ((''<b>'' @ py_str category @ '':</b> '') @ skills_text)) SkillItem])))"

definition build_skills :: "library \<Rightarrow> generator \<Rightarrow> error + generator" where
  "build_skills lib =
     with_section ''skills'' (\<lambda>skills g.
       on_story (chain [add_section_header (lib (config g)) ''SKILLS'',
                        (case skills of
                           YDict d \<Rightarrow> for_each (skills_category (lib (config g))) d
                         | YList xs \<Rightarrow>
                             compute (py_join '', '' xs) (\<lambda>t. emit (lib (config g)) [Paragraph (YStr t) SkillItem])
                         | _ \<Rightarrow> skip),
                        spacer_inch (lib (config g)) (section_spacing (config g))]) g)"

definition project_item :: "constructor \<Rightarrow> config \<Rightarrow> nat \<times> yaml \<Rightarrow> block list \<Rightarrow> error + block list" where
  "project_item mk c ix =
     (case ix of (i, project) \<Rightarrow>
        chain
          [only_if (i > 0) (spacer_inch mk (item_spacing c)),
           (case project of
              YDict e \<Rightarrow>
                chain
                  [only_if (truthy (get e ''name'' (YStr '''')))
                     (emit mk [title_row (get e ''name'' (YStr '''')) (get e ''date'' (YStr ''''))]),
                   (case lookup e ''technologies'' of
                      Some tech \<Rightarrow>
                        compute (joined_or_str tech) (\<lambda>tech_text.
                        emit mk [Paragraph (YStr (''<i>Technologies:</i> '' @ tech_text)) ItemSubtitle])
                    | None \<Rightarrow> skip),
                   (case lookup e ''description'' of
                      Some d \<Rightarrow> emit mk [Spacer (YFloat True ''0.03''), Paragraph d ResumeBody]
                    | None \<Rightarrow> skip),
                   (case lookup e ''highlights'' of
                      Some highlights \<Rightarrow>
                        only_if (truthy highlights)
                          (chain [emit mk [Spacer (YFloat True ''0.03'')],
                                  iterate highlights (\<lambda>h. emit mk [bullet_line h])])
                    | None \<Rightarrow> skip),
                   (case lookup e ''url'' of
                      Some url \<Rightarrow> emit mk [Paragraph (YStr (''<i>Link:</i> '' @ py_str url)) ResumeBody]
                    | None \<Rightarrow> skip)]
            | _ \<Rightarrow> raise AttributeError)])"

definition build_projects :: "library \<Rightarrow> generator \<Rightarrow> error + generator" where
  "build_projects lib =
     with_section ''projects'' (\<lambda>projects g.
       on_story (chain [add_section_header (lib (config g)) ''PROJECTS'',
                        iterate_enumerated projects (project_item (lib (config g)) (config g)),
                        spacer_inch (lib (config g)) (section_spacing (config g))]) g)"

definition certification_item :: "constructor \<Rightarrow> yaml \<Rightarrow> block list \<Rightarrow> error + block list" where
  "certification_item mk cert =
     (case cert of
        YDict e \<Rightarrow>
          chain
            [only_if (truthy (get e ''name'' (YStr '''')))
               (emit mk [title_row (get e ''name'' (YStr '''')) (get e ''date'' (YStr ''''))]),
             only_if (truthy (get e ''issuer'' (YStr '''')))
               (emit mk [Paragraph (get e ''issuer'' (YStr '''')) ItemSubtitle]),
             (case lookup e ''credential_id'' of
                Some cid \<Rightarrow> emit mk [Paragraph (YStr (''Credential ID: '' @ py_str cid)) ResumeBody]
              | None \<Rightarrow> skip),
             emit mk [Spacer (YFloat True ''0.04'')]]
      | _ \<Rightarrow> raise AttributeError)"

definition build_certifications :: "library \<Rightarrow> generator \<Rightarrow> error + generator" where
  "build_certifications lib =
     with_section ''certifications'' (\<lambda>certifications g.
       on_story (chain [add_section_header (lib (config g)) ''CERTIFICATIONS'',
                        iterate certifications (certification_item (lib (config g))),
                        emit (lib (config g)) [Spacer (YFloat True ''0.03'')]]) g)"

definition award_item :: "constructor \<Rightarrow> yaml \<Rightarrow> block list \<Rightarrow> error + block list" where
  "award_item mk award =
     (case award of
        YDict e \<Rightarrow>
          chain
            [only_if (truthy (get e ''name'' (YStr '''')))
               (emit mk [title_row (get e ''name'' (YStr '''')) (get e ''date'' (YStr ''''))]),
             only_if (truthy (get e ''issuer'' (YStr '''')))
               (emit mk [Paragraph (get e ''issuer'' (YStr '''')) ItemSubtitle]),
             (case lookup e ''description'' of
                Some d \<Rightarrow> emit mk [Paragraph d ResumeBody]
              | None \<Rightarrow> skip),
             emit mk [Spacer (YFloat True ''0.04'')]]
      | _ \<Rightarrow> raise AttributeError)"

definition build_awards :: "library \<Rightarrow> generator \<Rightarrow> error + generator" where
  "build_awards lib =
     with_section ''awards'' (\<lambda>awards g.
       on_story (chain [add_section_header (lib (config g)) ''AWARDS & HONORS'',
                        iterate awards (award_item (lib (config g))),
                        emit (lib (config g)) [Spacer (YFloat True ''0.03'')]]) g)"

definition publication_item :: "constructor \<Rightarrow> yaml \<Rightarrow> block list \<Rightarrow> error + block list" where
  "publication_item mk pub =
     (case pub of
        YDict e \<Rightarrow>
          let title = get e ''title'' (YStr '''');
              authors = get e ''authors'' (YStr '''');
              venue = get e ''venue'' (YStr '''');
              date = get e ''date'' (YStr '''');
              venue_date = (if truthy venue then [venue] else []) @ (if truthy date then [date] else [])
          in chain
               [only_if (truthy title)
                  (emit mk [Paragraph (YStr (''<b>'' @ py_str title @ ''</b>'')) ItemTitle]),
                only_if (truthy authors)
                  (compute (joined_or_str authors) (\<lambda>authors_text.
                   emit mk [Paragraph (YStr authors_text) ResumeBody])),
                only_if (venue_date \<noteq> [])
                  (compute (py_join '', '' venue_date) (\<lambda>venue_text.
                   emit mk [Paragraph (YStr (''<i>'' @ venue_text @ ''</i>'')) ItemSubtitle])),
                (case lookup e ''doi'' of
                   Some doi \<Rightarrow> emit mk [Paragraph (YStr (''DOI: '' @ py_str doi)) ResumeBody]
                 | None \<Rightarrow> skip),
                emit mk [Spacer (YFloat True ''0.04'')]]
      | _ \<Rightarrow> raise AttributeError)"

definition build_publications :: "library \<Rightarrow> generator \<Rightarrow> error + generator" where
  "build_publications lib =
     with_section ''publications'' (\<lambda>publications g.
       on_story (chain [add_section_header (lib (config g)) ''PUBLICATIONS'',
                        iterate publications (publication_item (lib (config g))),
                        emit (lib (config g)) [Spacer (YFloat True ''0.03'')]]) g)"

definition language_item :: "constructor \<Rightarrow> yaml \<Rightarrow> block list \<Rightarrow> error + block list" where
  "language_item mk lang =
     (case lang of
        YDict e \<Rightarrow>
          let name = get e ''name'' (YStr '''');
              level = get e ''level'' (YStr '''')
          in only_if (truthy name)
               (emit mk [bullet_line (YStr (py_str name @
                                        (if truthy level then '' ('' @ py_str level @ '')'' else [])))])
      | _ \<Rightarrow> emit mk [bullet_line lang])"

definition build_languages :: "library \<Rightarrow> generator \<Rightarrow> error + generator" where
  "build_languages lib =
     with_section ''languages'' (\<lambda>languages g.
       on_story (chain [add_section_header (lib (config g)) ''LANGUAGES'',
                        (case languages of
                           YDict d \<Rightarrow>
                             emit (lib (config g)) [Paragraph
                                     (YStr (join_str '', ''
                                        (map (\<lambda>(lang, level). py_str lang @ '' ('' @ py_str level @ '')'') d)))
                                     SkillItem]
                         | YList xs \<Rightarrow> for_each (language_item (lib (config g))) xs
                         | _ \<Rightarrow> skip),
                        spacer_inch (lib (config g)) (section_spacing (config g))]) g)"

definition volunteer_item :: "constructor \<Rightarrow> config \<Rightarrow> nat \<times> yaml \<Rightarrow> block list \<Rightarrow> error + block list" where
  "volunteer_item mk c ix =
     (case ix of (i, vol) \<Rightarrow>
        chain
          [only_if (i > 0) (spacer_inch mk (item_spacing c)),
           (case vol of
              YDict e \<Rightarrow>
                chain
                  [only_if (truthy (get e ''role'' (YStr '''')))
                     (emit mk [title_row (get e ''role'' (YStr ''''))
                              (YStr (format_date_range (get e ''start_date'' YNull) (get e ''end_date'' YNull)
                                       (get e ''present'' (YBool False))))]),
                   only_if (truthy (get e ''organization'' (YStr '''')))
                     (emit mk [Paragraph (get e ''organization'' (YStr '''')) ItemSubtitle]),
                   (case lookup e ''description'' of
                      Some d \<Rightarrow> emit mk [Spacer (YFloat True ''0.03''), Paragraph d ResumeBody]
                    | None \<Rightarrow> skip),
                   (case lookup e ''highlights'' of
                      Some highlights \<Rightarrow>
                        only_if (truthy highlights)
                          (chain [emit mk [Spacer (YFloat True ''0.03'')],
                                  iterate highlights (\<lambda>h. emit mk [bullet_line h])])
                    | None \<Rightarrow> skip)]
            | _ \<Rightarrow> raise AttributeError)])"

definition build_volunteer :: "library \<Rightarrow> generator \<Rightarrow> error + generator" where
  "build_volunteer lib =
     with_section ''volunteer'' (\<lambda>volunteer g.
       on_story (chain [add_section_header (lib (config g)) ''VOLUNTEER EXPERIENCE'',
                        iterate_enumerated volunteer (volunteer_item (lib (config g)) (config g)),
                        spacer_inch (lib (config g)) (section_spacing (config g))]) g)"

subsection \<open>Assembling the document\<close>

text \<open>What the program prints on the way to success; a failure prints through its \<open>error\<close>.\<close>

datatype message =
    Loading string
  | Generating
  | Unknown_section string
  | Generated "string \<times> string"
  | Created "string \<times> string"

text \<open>The dict \<^verbatim>\<open>section_builders\<close> of \<^verbatim>\<open>generate\<close>.\<close>

definition section_builders :: "library \<Rightarrow> (string \<times> (generator \<Rightarrow> error + generator)) list" where
  "section_builders lib =
     [(''summary'', build_summary lib),
      (''experience'', build_experience lib),
      (''education'', build_education lib),
      (''skills'', build_skills lib),
      (''projects'', build_projects lib),
      (''certifications'', build_certifications lib),
      (''awards'', build_awards lib),
      (''publications'', build_publications lib),
      (''languages'', build_languages lib),
      (''volunteer'', build_volunteer lib)]"

text \<open>
  \<^verbatim>\<open>section_name in section_builders\<close> hashes the name, which a list or a dict
  refuses; no value but a string equals one of the keys.
\<close>

definition find_builder ::
  "library \<Rightarrow> yaml \<Rightarrow> error + (generator \<Rightarrow> error + generator) option" where
  "find_builder lib section_name =
     (case section_name of
        YStr n \<Rightarrow> Inr (map_of (section_builders lib) n)
      | YList xs \<Rightarrow> Inl (Uncaught TypeError)
      | YDict d \<Rightarrow> Inl (Uncaught TypeError)
      | _ \<Rightarrow> Inr None)"

text \<open>The body of the loop over \<^verbatim>\<open>section_order\<close>; the second component is what was
  printed so far.\<close>

definition section_step ::
  "library \<Rightarrow> yaml \<Rightarrow> generator \<times> message list \<Rightarrow> error + generator \<times> message list" where
  "section_step lib section_name st =
     (case st of (g, out) \<Rightarrow>
        bind (find_builder lib section_name) (\<lambda>found.
        case found of
          Some builder \<Rightarrow> bind (builder g) (\<lambda>g'. Inr (g', out))
        | None \<Rightarrow> Inr (g, out @ [Unknown_section (py_str section_name)])))"

definition add_footer :: "library \<Rightarrow> generator \<Rightarrow> error + generator" where
  "add_footer lib g =
     on_story
       (only_if (truthy (footer (config g)))
          (emit (lib (config g))
             [Spacer (YFloat True ''0.2''),
              Paragraph (YStr ''Generated by Resume Generator | George Yuanji Wang'') Footer])) g"

text \<open>The name of the output file, without its directory.\<close>

definition output_name :: "generator \<Rightarrow> error + string" where
  "output_name g =
     bind (py_get (data g) ''personal'' (YDict [])) (\<lambda>personal.
     bind (py_get personal ''name'' (YStr ''resume'')) (\<lambda>name.
     bind (py_replace_spaces name) (\<lambda>name.
     Inr (name @ ''_resume.pdf''))))"

text \<open>
  \<^verbatim>\<open>generate\<close> up to the \<^verbatim>\<open>try\<close>: the output file (the directory and the file name
  in it), the margin in inches, the generator with the finished story, and what was
  printed.
\<close>

definition assemble ::
  "library \<Rightarrow> generator \<Rightarrow> error + (string \<times> string) \<times> yaml \<times> generator \<times> message list" where
  "assemble lib g =
     bind (output_name g) (\<lambda>name.
     bind (times_inch (margin (config g))) (\<lambda>m.
     bind (build_header lib g) (\<lambda>g1.
     bind (iterate (section_order (config g)) (section_step lib) (g1, [])) (\<lambda>(g2, out).
     bind (add_footer lib g2) (\<lambda>g3.
     Inr ((output_dir g, name), m, g3, out))))))"

text \<open>
  \<^verbatim>\<open>generate\<close>: assemble, then hand the story to the layout library, inside the only
  \<^verbatim>\<open>try\<close> of the method. Everything before it, the paragraphs of the renderers
  included, is outside.
\<close>

definition generate ::
  "world \<Rightarrow> generator \<Rightarrow> error + (string \<times> string) \<times> generator \<times> message list" where
  "generate w g =
     bind (assemble (new_paragraph w) g) (\<lambda>(output_file, m, g', out).
     if doc_build w output_file m (story g') then Inr (output_file, g', out @ [Generated output_file])
     else Inl RenderError)"

text \<open>\<^verbatim>\<open>main\<close>, on the argument vector.\<close>

definition main ::
  "world \<Rightarrow> string list \<Rightarrow> error + (string \<times> string) \<times> generator \<times> message list" where
  "main w argv =
     (case argv of
        prog # path # rest \<Rightarrow>
          bind (init w path ''output'') (\<lambda>g.
          bind (generate w g) (\<lambda>(output_file, g', out).
          Inr (output_file, g', [Loading path, Generating] @ out @ [Created output_file])))
      | _ \<Rightarrow> Inl Usage)"

text \<open>
  The exit status of the process: 1 after \<^verbatim>\<open>sys.exit(1)\<close> and after an uncaught
  exception, 0 when \<^verbatim>\<open>main\<close> returns.
\<close>

definition exit_status :: "error + 'a \<Rightarrow> nat" where
  "exit_status r = (case r of Inl e \<Rightarrow> 1 | Inr x \<Rightarrow> 0)"


declare dec_nat.simps [simp del]

subsection \<open>Predicates of the properties\<close>

text \<open>A step is append-only: the story it returns starts with the story it was given.\<close>

definition grows :: "(block list \<Rightarrow> error + block list) \<Rightarrow> bool" where
  "grows f = (\<forall>s s'. f s = Inr s' \<longrightarrow> prefix s s')"

text \<open>The same for an operation on the generator.\<close>

definition appends :: "(generator \<Rightarrow> error + generator) \<Rightarrow> bool" where
  "appends f = (\<forall>g g'. f g = Inr g' \<longrightarrow> prefix (story g) (story g'))"

text \<open>A string is blank: it is empty, or every code point of it is white space.\<close>

definition blank :: "string \<Rightarrow> bool" where
  "blank t = list_all is_space (py_chars t)"

text \<open>
  The generator of the same run started on another path, and an operation that does not
  look at the path: on the generator of the other path it does the same, and leaves the
  path alone.
\<close>

definition moved :: "string \<Rightarrow> generator \<Rightarrow> generator" where
  "moved path g = g\<lparr>yaml_file := path\<rparr>"

definition path_blind :: "(generator \<Rightarrow> error + generator) \<Rightarrow> bool" where
  "path_blind f = (\<forall>path g. f (moved path g) = map_sum id (moved path) (f g))"

text \<open>
  The operations that write to the story: the header, the footer and the ten section
  renderers.
\<close>

definition operations :: "library \<Rightarrow> (generator \<Rightarrow> error + generator) list" where
  "operations lib = build_header lib # add_footer lib # map snd (section_builders lib)"

text \<open>
  For the examples: a library that takes every text; a world with one file, in which the
  output directory can be made and the layout library takes and builds whatever it is
  given; and the configuration that a document without a \<open>config\<close> entry resolves to.
\<close>

definition accepting :: library where
  "accepting c st text = None"

definition world_with :: "string \<Rightarrow> input \<Rightarrow> world" where
  "world_with path f =
     \<lparr>read_file = (\<lambda>p. if p = path then f else Missing),
      mkdir = (\<lambda>dir. True),
      new_paragraph = accepting,
      doc_build = (\<lambda>output_file m s. True)\<rparr>"

definition default_config :: config where
  "default_config =
     \<lparr>font_name = YStr ''Helvetica'', font_name_bold = YStr ''Helvetica-Bold'',
      font_name_italic = YStr ''Helvetica-Oblique'', name_size = YInt 20,
      section_header_size = YInt 12, title_size = YInt 10, body_size = YInt 9,
      margin = YFloat True ''0.6'', section_spacing = YFloat True ''0.08'',
      item_spacing = YFloat True ''0.06'', section_order = default_section_order,
      footer = YBool False\<rparr>"

section \<open>Properties\<close>

subsection \<open>Sequencing\<close>

lemma bind_Inl [simp]: "bind (Inl e) f = Inl e"
  by (simp add: bind_def)

lemma bind_Inr [simp]: "bind (Inr x) f = f x"
  by (simp add: bind_def)

lemma bind_eq_Inr: "bind m f = Inr y \<longleftrightarrow> (\<exists>x. m = Inr x \<and> f x = Inr y)"
  by (cases m) simp_all

lemma chain_append: "chain (fs @ hs) s = bind (chain fs s) (chain hs)"
proof (induction fs arbitrary: s)
  case Nil
  show ?case by simp
next
  case (Cons f fs)
  show ?case by (cases "f s") (simp_all add: Cons.IH)
qed

lemma for_each_Nil [simp]: "for_each body [] s = Inr s"
  by (simp add: for_each_def)

lemma for_each_Cons [simp]: "for_each body (x # xs) s = bind (body x s) (for_each body xs)"
  by (simp add: for_each_def)

lemma emit_accepted:
  assumes "\<And>b. b \<in> set bs \<Longrightarrow> raised mk b = []"
  shows "emit mk bs s = Inr (s @ bs)"
proof -
  from assms have none: "concat (map (raised mk) bs) = []"
    by simp
  show ?thesis
    by (simp only: emit_def none list.case)
qed

lemma emit_refused:
  assumes "concat (map (raised mk) bs) = e # es"
  shows "emit mk bs s = Inl (Uncaught e)"
  by (simp only: emit_def assms list.case)

lemma emit_eq_Inr:
  "emit mk bs s = Inr s' \<longleftrightarrow> (\<forall>b \<in> set bs. raised mk b = []) \<and> s' = s @ bs"
proof (cases "concat (map (raised mk) bs)")
  case Nil
  then have "\<forall>b \<in> set bs. raised mk b = []"
    by simp
  then show ?thesis
    by (auto simp: emit_accepted)
next
  case (Cons e es)
  have "\<not> (\<forall>b \<in> set bs. raised mk b = [])"
  proof
    assume "\<forall>b \<in> set bs. raised mk b = []"
    then have "concat (map (raised mk) bs) = []"
      by simp
    with Cons show False
      by (metis list.distinct(1))
  qed
  with emit_refused [OF Cons] show ?thesis
    by simp
qed

lemma emit_one: "raised mk b = [] \<Longrightarrow> emit mk [b] s = Inr (s @ [b])"
  by (simp add: emit_def)

lemma raised_accepting [simp]: "raised (accepting c) b = []"
  by (induction b) (simp_all add: accepting_def)

lemma emit_accepting [simp]: "emit (accepting c) bs s = Inr (s @ bs)"
  by (simp add: emit_accepted)

lemma for_each_emit:
  "(\<And>x. x \<in> set xs \<Longrightarrow> raised mk (f x) = []) \<Longrightarrow>
   for_each (\<lambda>x. emit mk [f x]) xs s = Inr (s @ map f xs)"
  by (induction xs arbitrary: s) (simp_all add: emit_one)

subsection \<open>The story only grows\<close>

lemma growsI: "(\<And>s s'. f s = Inr s' \<Longrightarrow> prefix s s') \<Longrightarrow> grows f"
  by (simp add: grows_def)

lemma growsD: "grows f \<Longrightarrow> f s = Inr s' \<Longrightarrow> prefix s s'"
  by (simp add: grows_def)

lemma grows_emit [simp]: "grows (emit mk bs)"
  by (simp add: grows_def emit_eq_Inr)

lemma grows_skip [simp]: "grows skip"
  by (simp add: grows_def skip_def)

lemma grows_raise [simp]: "grows (raise e)"
  by (simp add: grows_def raise_def)

lemma grows_only_if [simp]: "grows f \<Longrightarrow> grows (only_if c f)"
  by (simp add: grows_def only_if_def)

lemma grows_compute [simp]: "(\<And>x. grows (f x)) \<Longrightarrow> grows (compute m f)"
  by (cases m) (simp_all add: grows_def compute_def)

lemma grows_chain [simp]: "list_all grows fs \<Longrightarrow> grows (chain fs)"
proof (induction fs)
  case Nil
  show ?case by (simp add: grows_def)
next
  case (Cons f fs)
  then have f: "grows f" and fs: "grows (chain fs)" by simp_all
  show ?case
  proof (rule growsI)
    fix s s' assume "chain (f # fs) s = Inr s'"
    then obtain t where "f s = Inr t" "chain fs t = Inr s'"
      by (auto simp: bind_eq_Inr)
    with f fs show "prefix s s'"
      by (meson growsD prefix_order.trans)
  qed
qed

lemma grows_for_each [simp]: "(\<And>x. grows (body x)) \<Longrightarrow> grows (for_each body xs)"
  by (simp add: for_each_def list_all_iff)

lemma grows_iterate [simp]: "(\<And>x. grows (body x)) \<Longrightarrow> grows (iterate v body)"
  by (simp add: iterate_def)

lemma grows_iterate_enumerated [simp]: "(\<And>x. grows (body x)) \<Longrightarrow> grows (iterate_enumerated v body)"
  by (simp add: iterate_enumerated_def)

lemma grows_spacer_inch [simp]: "grows (spacer_inch mk v)"
  by (simp add: spacer_inch_def)

lemma grows_add_section_header [simp]: "grows (add_section_header mk t)"
  by (simp add: add_section_header_def)

lemma grows_subtitle [simp]: "grows (subtitle mk org location)"
  by (simp add: subtitle_def)

lemma grows_contact_line [simp]: "grows (contact_line mk p)"
  by (simp add: contact_line_def)

lemma grows_links_line [simp]: "grows (links_line mk links)"
  by (simp add: links_line_def split: yaml.split)

lemma grows_experience_highlight [simp]: "grows (experience_highlight mk h)"
  by (simp add: experience_highlight_def split: yaml.split)

lemma grows_experience_item [simp]: "grows (experience_item mk c ix)"
  by (simp add: experience_item_def split: prod.split yaml.split option.split)

lemma grows_education_item [simp]: "grows (education_item mk c ix)"
  by (simp add: education_item_def Let_def split: prod.split yaml.split option.split)

lemma grows_skills_category [simp]: "grows (skills_category mk kv)"
  by (simp add: skills_category_def split: prod.split)

lemma grows_project_item [simp]: "grows (project_item mk c ix)"
  by (simp add: project_item_def split: prod.split yaml.split option.split)

lemma grows_certification_item [simp]: "grows (certification_item mk x)"
  by (simp add: certification_item_def split: yaml.split option.split)

lemma grows_award_item [simp]: "grows (award_item mk x)"
  by (simp add: award_item_def split: yaml.split option.split)

lemma grows_publication_item [simp]: "grows (publication_item mk x)"
  by (simp add: publication_item_def Let_def split: yaml.split option.split)

lemma grows_language_item [simp]: "grows (language_item mk x)"
  by (simp add: language_item_def Let_def split: yaml.split)

lemma grows_volunteer_item [simp]: "grows (volunteer_item mk c ix)"
  by (simp add: volunteer_item_def split: prod.split yaml.split option.split)

lemma appendsI: "(\<And>g g'. f g = Inr g' \<Longrightarrow> prefix (story g) (story g')) \<Longrightarrow> appends f"
  by (simp add: appends_def)

lemma appendsD: "appends f \<Longrightarrow> f g = Inr g' \<Longrightarrow> prefix (story g) (story g')"
  by (simp add: appends_def)

lemma appends_Inl [simp]: "appends (\<lambda>g. Inl e)"
  by (simp add: appends_def)

lemma appends_Inr [simp]: "appends (\<lambda>g. Inr g)"
  by (simp add: appends_def)

lemma appends_on_story [simp]:
  assumes "\<And>g. grows (f g)"
  shows "appends (\<lambda>g. on_story (f g) g)"
proof (rule appendsI)
  fix g g' assume "on_story (f g) g = Inr g'"
  then obtain s where "f g (story g) = Inr s" and "g' = g\<lparr>story := s\<rparr>"
    by (auto simp: on_story_def bind_eq_Inr)
  with growsD [OF assms] show "prefix (story g) (story g')"
    by simp
qed

lemma appends_bind: "(\<And>x. appends (f x)) \<Longrightarrow> appends (\<lambda>g. bind (m g) (\<lambda>x. f x g))"
  by (auto simp: appends_def bind_eq_Inr)

lemma appends_if: "appends f \<Longrightarrow> appends h \<Longrightarrow> appends (\<lambda>g. if c g then f g else h g)"
  by (simp add: appends_def)

lemma appends_with_section [simp]: "(\<And>v. appends (body v)) \<Longrightarrow> appends (with_section key body)"
  by (auto simp: appends_def with_section_def bind_eq_Inr split: if_splits)

lemma appends_then_data:
  "appends f \<Longrightarrow> appends (\<lambda>g. bind (f g) (\<lambda>g'. Inr (g'\<lparr>data := h g'\<rparr>)))"
  by (auto simp: appends_def bind_eq_Inr)

lemma appends_build_header [simp]: "appends (build_header lib)"
proof -
  have "appends (\<lambda>g. case personal of
           YDict p \<Rightarrow>
             on_story (chain [emit (lib (config g)) [Paragraph (get p ''name'' (YStr [])) Name],
                              contact_line (lib (config g)) p,
                              links_line (lib (config g)) (get p ''links'' (YDict [])),
                              spacer_inch (lib (config g)) (section_spacing (config g))]) g
         | _ \<Rightarrow> Inl (Uncaught AttributeError))" for personal
    by (cases personal) simp_all
  then show ?thesis
    unfolding build_header_def by (rule appends_bind)
qed

lemma appends_summary_text:
  "appends (\<lambda>g. case summary_text of
       None \<Rightarrow> Inr g
     | Some t \<Rightarrow>
         if t \<noteq> [] then
           on_story (chain [add_section_header (lib (config g)) ''PROFESSIONAL SUMMARY'',
                            emit (lib (config g)) [Paragraph (YStr t) Summary],
                            spacer_inch (lib (config g)) (item_spacing (config g))]) g
         else Inr g)"
  by (cases summary_text) (simp_all add: appends_if)

lemma appends_build_summary [simp]: "appends (build_summary lib)"
  unfolding build_summary_def
  by (intro appends_bind appends_if appends_Inr appends_summary_text)

lemma appends_build_experience [simp]: "appends (build_experience lib)"
  unfolding build_experience_def
  by (intro appends_with_section appends_then_data appends_on_story) simp

lemma appends_build_education [simp]: "appends (build_education lib)"
  unfolding build_education_def
  by (intro appends_with_section appends_then_data appends_on_story) simp

lemma appends_build_skills [simp]: "appends (build_skills lib)"
  unfolding build_skills_def
  by (intro appends_with_section appends_on_story) (simp split: yaml.split)

lemma appends_build_projects [simp]: "appends (build_projects lib)"
  by (simp add: build_projects_def)

lemma appends_build_certifications [simp]: "appends (build_certifications lib)"
  by (simp add: build_certifications_def)

lemma appends_build_awards [simp]: "appends (build_awards lib)"
  by (simp add: build_awards_def)

lemma appends_build_publications [simp]: "appends (build_publications lib)"
  by (simp add: build_publications_def)

lemma appends_build_languages [simp]: "appends (build_languages lib)"
  unfolding build_languages_def
  by (intro appends_with_section appends_on_story) (simp split: yaml.split)

lemma appends_build_volunteer [simp]: "appends (build_volunteer lib)"
  by (simp add: build_volunteer_def)

lemma appends_add_footer [simp]: "appends (add_footer lib)"
  unfolding add_footer_def by (intro appends_on_story) simp

subsection \<open>The date-range formatter\<close>

text \<open>
  C1. The date-range formatter returns the empty string when the start value is absent
  or falsy; otherwise the start, stringified, followed by \<open>- Present\<close> when the
  present flag is true or the end value, stringified and lowered, is \<open>present\<close>;
  otherwise followed by \<open>-\<close> and the end, stringified, when an end value is given (is
  not falsy); otherwise the start alone.
\<close>

theorem format_date_range_rules:
  "format_date_range start_date end_date present =
     (if \<not> truthy start_date then ''''
      else if truthy present \<or> (truthy end_date \<and> py_lower (py_str end_date) = ''present'')
        then py_str start_date @ '' - Present''
      else if truthy end_date then py_str start_date @ '' - '' @ py_str end_date
      else py_str start_date)"
  by (cases start_date; cases end_date) (simp_all add: format_date_range_def Let_def)

subsection \<open>The story only grows, whatever the operations\<close>

lemma appends_chain: "list_all appends ops \<Longrightarrow> appends (chain ops)"
proof (induction ops)
  case Nil
  show ?case by (simp add: appends_def)
next
  case (Cons f fs)
  then have f: "appends f" and fs: "appends (chain fs)" by simp_all
  show ?case
  proof (rule appendsI)
    fix g g' assume "chain (f # fs) g = Inr g'"
    then obtain h where "f g = Inr h" "chain fs h = Inr g'"
      by (auto simp: bind_eq_Inr)
    with f fs show "prefix (story g) (story g')"
      by (meson appendsD prefix_order.trans)
  qed
qed

lemma appends_operations: "list_all appends (operations lib)"
  by (simp add: operations_def section_builders_def)

text \<open>
  C9. The story is append-only, whatever the layout library raises. The section header
  appends to the story it is given, and after any sequence of the operations that write
  to the story (the header, the footer and the ten renderers, in any order and any number
  of times) that runs to its end, the story it started from is a prefix of the story it
  leaves: no block already there is removed, moved or changed.
\<close>

theorem story_append_only:
  "grows (add_section_header mk title) \<and>
   (set ops \<subseteq> set (operations lib) \<longrightarrow> chain ops g = Inr g' \<longrightarrow> prefix (story g) (story g'))"
proof (intro conjI impI)
  show "grows (add_section_header mk title)" by simp
next
  assume sub: "set ops \<subseteq> set (operations lib)" and run: "chain ops g = Inr g'"
  from sub appends_operations [of lib] have "list_all appends ops"
    by (auto simp: list_all_iff)
  then have "appends (chain ops)" by (rule appends_chain)
  from this run show "prefix (story g) (story g')" by (rule appendsD)
qed

text \<open>The same for the whole of the assembly, whatever the section order holds.\<close>

lemma section_step_appends:
  "section_step lib n (g, out) = Inr (g', out') \<Longrightarrow> prefix (story g) (story g')"
proof -
  assume a: "section_step lib n (g, out) = Inr (g', out')"
  then obtain found where f: "find_builder lib n = Inr found"
    by (auto simp: section_step_def bind_eq_Inr)
  show ?thesis
  proof (cases found)
    case None
    with a f show ?thesis by (simp add: section_step_def)
  next
    case (Some builder)
    with f have "builder \<in> set (map snd (section_builders lib))"
      by (force simp: find_builder_def split: yaml.splits dest!: map_of_SomeD)
    then have "appends builder"
      by (auto simp: section_builders_def)
    with a f Some show ?thesis
      by (auto simp: section_step_def bind_eq_Inr dest: appendsD)
  qed
qed

lemma sections_loop_appends:
  "for_each (section_step lib) names (g, out) = Inr (g', out') \<Longrightarrow> prefix (story g) (story g')"
proof (induction names arbitrary: g out)
  case Nil
  then show ?case by simp
next
  case (Cons n names)
  then obtain h o1 where "section_step lib n (g, out) = Inr (h, o1)"
    and "for_each (section_step lib) names (h, o1) = Inr (g', out')"
    by (auto simp: bind_eq_Inr)
  then show ?case
    by (meson Cons.IH section_step_appends prefix_order.trans)
qed

lemma assemble_appends:
  assumes "assemble lib g = Inr (output_file, m, g', out)"
  shows "prefix (story g) (story g')"
proof -
  from assms obtain g1 g2 names where h: "build_header lib g = Inr g1"
    and n: "py_iter (section_order (config g)) = Inr names"
    and l: "for_each (section_step lib) names (g1, []) = Inr (g2, out)"
    and f: "add_footer lib g2 = Inr g'"
    by (auto simp: assemble_def bind_eq_Inr iterate_def compute_def)
  have "prefix (story g) (story g1)"
    using h by (rule appendsD [OF appends_build_header])
  moreover have "prefix (story g1) (story g2)"
    using l by (rule sections_loop_appends)
  moreover have "prefix (story g2) (story g')"
    using f by (rule appendsD [OF appends_add_footer])
  ultimately show ?thesis
    by (meson prefix_order.trans)
qed

subsection \<open>Absent and empty sections\<close>

lemma with_section_absent:
  "data g = YDict d \<Longrightarrow> lookup d key = None \<Longrightarrow> with_section key body g = Inr g"
  by (simp add: with_section_def)

lemma with_section_falsy:
  "data g = YDict d \<Longrightarrow> lookup d key = Some v \<Longrightarrow> \<not> truthy v \<Longrightarrow> with_section key body g = Inr g"
  by (simp add: with_section_def)

lemma build_summary_absent:
  "data g = YDict d \<Longrightarrow> lookup d ''summary'' = None \<Longrightarrow> build_summary lib g = Inr g"
  by (simp add: build_summary_def)

lemma build_summary_empty:
  "data g = YDict d \<Longrightarrow> lookup d ''summary'' = Some v \<Longrightarrow> v = YNull \<or> v = YList [] \<or> v = YDict [] \<Longrightarrow>
   build_summary lib g = Inr g"
  by (auto simp: build_summary_def py_join_def)

lemma section_builders_cases:
  assumes "(key, builder) \<in> set (section_builders lib)"
  shows "key = ''summary'' \<and> builder = build_summary lib \<or>
         (\<exists>body. builder = with_section key body)"
  using assms
  by (auto simp: section_builders_def build_experience_def build_education_def build_skills_def
      build_projects_def build_certifications_def build_awards_def build_publications_def
      build_languages_def build_volunteer_def)

text \<open>
  C4. Every section renderer, on a document where the key of its section is absent or
  has the value null, the empty list or the empty mapping, returns the generator as it
  was: nothing is appended to the story, no header, no rule, no spacer, and nothing is
  raised.
\<close>

theorem empty_section_emits_nothing:
  assumes "(key, builder) \<in> set (section_builders lib)"
    and "data g = YDict d"
    and "lookup d key = None \<or> lookup d key = Some YNull \<or> lookup d key = Some (YList []) \<or>
         lookup d key = Some (YDict [])"
  shows "builder g = Inr g"
proof -
  from section_builders_cases [OF assms(1)]
  consider "key = ''summary''" "builder = build_summary lib"
    | body where "builder = with_section key body"
    by blast
  then show ?thesis
  proof cases
    case 1
    with assms(2,3) show ?thesis
      by (auto simp: build_summary_absent build_summary_empty)
  next
    case 2
    with assms(2,3) show ?thesis
      by (auto simp: with_section_absent with_section_falsy)
  qed
qed

subsection \<open>The order of the sections\<close>

lemma section_step_name:
  "section_step lib (YStr n) (g, out) =
     (case map_of (section_builders lib) n of
        Some builder \<Rightarrow> bind (builder g) (\<lambda>g'. Inr (g', out))
      | None \<Rightarrow> Inr (g, out @ [Unknown_section n]))"
  by (cases "map_of (section_builders lib) n") (simp_all add: section_step_def find_builder_def)

lemma sections_loop:
  "for_each (section_step lib) (map YStr names) (g, out) =
     (case chain (List.map_filter (map_of (section_builders lib)) names) g of
        Inl e \<Rightarrow> Inl e
      | Inr g' \<Rightarrow>
          Inr (g', out @ map Unknown_section
                         (filter (\<lambda>n. map_of (section_builders lib) n = None) names)))"
proof (induction names arbitrary: g out)
  case Nil
  show ?case by (simp add: List.map_filter_simps)
next
  case (Cons n names)
  show ?case
  proof (cases "map_of (section_builders lib) n")
    case None
    then show ?thesis
      by (simp add: section_step_name Cons.IH List.map_filter_simps split: sum.split)
  next
    case (Some builder)
    then show ?thesis
      by (cases "builder g")
         (simp_all add: section_step_name Cons.IH List.map_filter_simps split: sum.split)
  qed
qed

lemma configured_loop:
  assumes "section_order (config g) = YList (map YStr names)"
  shows "iterate (section_order (config g)) (section_step lib) (g1, out) =
           (case chain (List.map_filter (map_of (section_builders lib)) names) g1 of
              Inl e \<Rightarrow> Inl e
            | Inr g2 \<Rightarrow>
                Inr (g2, out @ map Unknown_section
                               (filter (\<lambda>n. map_of (section_builders lib) n = None) names)))"
  by (simp add: assms iterate_def compute_def sections_loop)

text \<open>
  C5. When the \<open>section_order\<close> of the configuration is a list of names, the assembler
  (\<^verbatim>\<open>generate\<close> up to the point where it hands the story over) does this and nothing
  else to the generator: the header, then the renderers of the recognised names of the
  list, one after the other in the order of the list, then the footer. The keys of the
  document and their order have no part in it. It fails exactly when one of these steps
  or the naming of the output file does; a name that is not recognised never makes it
  fail, and adds one warning, in the order of the list, to what is printed.
\<close>

theorem section_order_respected:
  assumes "section_order (config g) = YList (map YStr names)"
  shows "assemble lib g =
           bind (output_name g) (\<lambda>name.
           bind (times_inch (margin (config g))) (\<lambda>m.
           bind (chain (build_header lib #
                        List.map_filter (map_of (section_builders lib)) names @
                        [add_footer lib]) g) (\<lambda>g'.
           Inr ((output_dir g, name), m, g',
                map Unknown_section
                  (filter (\<lambda>n. map_of (section_builders lib) n = None) names)))))"
proof (cases "output_name g")
  case (Inl e)
  then show ?thesis by (simp add: assemble_def)
next
  case name: (Inr name)
  show ?thesis
  proof (cases "times_inch (margin (config g))")
    case (Inl e)
    with name show ?thesis by (simp add: assemble_def)
  next
    case m: (Inr m)
    show ?thesis
    proof (cases "build_header lib g")
      case (Inl e)
      with name m show ?thesis by (simp add: assemble_def)
    next
      case header: (Inr g1)
      show ?thesis
      proof (cases "chain (List.map_filter (map_of (section_builders lib)) names) g1")
        case (Inl e)
        with name m header show ?thesis
          by (simp add: assemble_def configured_loop [OF assms] chain_append)
      next
        case (Inr g2)
        with name m header show ?thesis
          by (cases "add_footer lib g2")
             (simp_all add: assemble_def configured_loop [OF assms] chain_append)
      qed
    qed
  qed
qed

subsection \<open>Loading\<close>

lemma lookup_Some_nonempty: "lookup d k = Some v \<Longrightarrow> d \<noteq> []"
  by (auto simp: lookup_def)

text \<open>What loading accepts is a mapping, so the generator always holds one.\<close>

lemma load_yaml_dict: "load_yaml f = Inr doc \<Longrightarrow> \<exists>d. doc = YDict d"
  by (cases doc) (auto simp: load_yaml_def bind_eq_Inr split: input.splits if_splits)

lemma init_load_error:
  "load_yaml (read_file w path) = Inl e \<Longrightarrow> mkdir w dir \<Longrightarrow> init w path dir = Inl e"
  by (simp add: init_def)

lemma exit_status_init_error:
  "load_yaml (read_file w path) = Inl e \<Longrightarrow> exit_status (main w (prog # path # rest)) = 1"
  by (simp add: main_def init_def exit_status_def)

text \<open>
  C2, as amended. A missing path ends in \<open>NotFound\<close> and a malformed document in
  \<open>YAMLError\<close>. A document that parses ends in a validation error when it is empty (falsy),
  when it is a mapping without the key \<open>personal\<close>, and when it is a mapping whose
  \<open>personal\<close> is a mapping without the key \<open>name\<close>. In each case loading returns that
  error, the process exits with status 1, and, the output directory being there, that
  error is how \<open>main\<close> ends.
\<close>

theorem invalid_input_fails:
  assumes "read_file w path = Missing \<and> e = NotFound \<or>
           read_file w path = Malformed \<and> e = YAMLError \<or>
           (\<exists>doc. read_file w path = Parsed doc \<and> \<not> truthy doc \<and> e = ValidationError Empty_file) \<or>
           (\<exists>d. read_file w path = Parsed (YDict d) \<and> d \<noteq> [] \<and> lookup d ''personal'' = None \<and>
                e = ValidationError Missing_personal) \<or>
           (\<exists>d p. read_file w path = Parsed (YDict d) \<and> lookup d ''personal'' = Some (YDict p) \<and>
                  lookup p ''name'' = None \<and> e = ValidationError Missing_name)"
  shows "load_yaml (read_file w path) = Inl e \<and>
         exit_status (main w (prog # path # rest)) = 1 \<and>
         (mkdir w ''output'' \<longrightarrow> main w (prog # path # rest) = Inl e)"
proof -
  from assms have load: "load_yaml (read_file w path) = Inl e"
    by (auto simp: load_yaml_def dest: lookup_Some_nonempty)
  then show ?thesis
    by (simp add: exit_status_init_error) (simp add: main_def init_def)
qed

text \<open>
  C2, as stated, fails: this document has no \<open>personal\<close> mapping (its \<open>personal\<close> is a
  string, in which \<^verbatim>\<open>'name' in personal\<close> finds the substring), and loading accepts it.
\<close>

theorem personal_string_is_accepted:
  "load_yaml (Parsed (YDict [(YStr ''personal'', YStr ''my name'')])) =
     Inr (YDict [(YStr ''personal'', YStr ''my name'')])"
  by code_simp

text \<open>
  C10. Loading looks for the key \<open>name\<close> and not at its value: a document whose
  \<open>personal\<close> mapping has the key \<open>name\<close> is accepted whatever the value is, null and
  the empty string included.
\<close>

theorem name_value_not_validated:
  assumes "lookup d ''personal'' = Some (YDict p)" and "lookup p ''name'' = Some v"
  shows "load_yaml (Parsed (YDict d)) = Inr (YDict d)"
  using assms by (simp add: load_yaml_def lookup_Some_nonempty)

subsection \<open>Configuration\<close>

lemma get_absent: "lookup d k = None \<Longrightarrow> get d k dflt = dflt"
  by (simp add: get_def)

lemma get_present: "lookup d k = Some v \<Longrightarrow> get d k dflt = v"
  by (simp add: get_def)

lemma get_Nil [simp]: "get [] k dflt = dflt"
  by (simp add: get_def lookup_def)

text \<open>
  C6, as amended. When the \<open>config\<close> entry of the document is absent or a mapping, and
  the \<open>fonts\<close> entry of that mapping is absent or a mapping, configuration resolution does
  not fail, and each of the twelve options is resolved on its own: to the value supplied
  under its key when the key is there, and to its default otherwise (\<open>get\<close>).
\<close>

theorem load_config_resolves:
  assumes "lookup d ''config'' = None \<and> conf = [] \<or> lookup d ''config'' = Some (YDict conf)"
    and "lookup conf ''fonts'' = None \<and> fonts = [] \<or> lookup conf ''fonts'' = Some (YDict fonts)"
  shows "load_config (YDict d) =
           Inr \<lparr>font_name = get fonts ''name'' (YStr ''Helvetica''),
                font_name_bold = get fonts ''name_bold'' (YStr ''Helvetica-Bold''),
                font_name_italic = get fonts ''name_italic'' (YStr ''Helvetica-Oblique''),
                name_size = get fonts ''name_size'' (YInt 20),
                section_header_size = get fonts ''section_header_size'' (YInt 12),
                title_size = get fonts ''title_size'' (YInt 10),
                body_size = get fonts ''body_size'' (YInt 9),
                margin = get conf ''margin'' (YFloat True ''0.6''),
                section_spacing = get conf ''section_spacing'' (YFloat True ''0.08''),
                item_spacing = get conf ''item_spacing'' (YFloat True ''0.06''),
                section_order = get conf ''section_order''
                  (YList [YStr ''summary'', YStr ''experience'', YStr ''education'', YStr ''skills'',
                          YStr ''projects'', YStr ''certifications'', YStr ''awards'',
                          YStr ''publications'', YStr ''languages'', YStr ''volunteer'']),
                footer = get conf ''footer'' (YBool False)\<rparr>"
proof -
  from assms(1) have c: "py_get (YDict d) ''config'' (YDict []) = Inr (YDict conf)"
    by (auto simp: get_def)
  from assms(2) have f: "py_get (YDict conf) ''fonts'' (YDict []) = Inr (YDict fonts)"
    by (auto simp: get_def)
  show ?thesis
    unfolding load_config_def c f bind_Inr default_section_order_def
    by simp
qed

text \<open>
  C6, as stated, fails: with a \<open>config\<close> key that has no value, resolution raises
  \<^verbatim>\<open>AttributeError\<close>.
\<close>

theorem null_config_raises:
  "load_config (YDict [(YStr ''personal'', YDict [(YStr ''name'', YStr ''Ada'')]),
                       (YStr ''config'', YNull)]) = Inl (Uncaught AttributeError)"
  by code_simp

subsection \<open>A document with a name only\<close>


text \<open>The header of such a document: the library is asked for one paragraph, the name.\<close>

lemma name_only_header:
  assumes "data g = YDict [(YStr ''personal'', YDict [(YStr ''name'', v)])]"
    and "section_spacing (config g) = YFloat True ''0.08''"
  shows "build_header lib g =
           (case lib (config g) Name v of
              None \<Rightarrow> Inr (g\<lparr>story := story g @ [Paragraph v Name, Spacer (YFloat True ''0.08'')]\<rparr>)
            | Some e \<Rightarrow> Inl (Uncaught e))"
  using assms
  by (simp add: build_header_def get_def lookup_def on_story_def emit_def contact_line_def
      contact_parts_def present_value_def compute_def only_if_def links_line_def spacer_inch_def
      split: option.split)

lemma name_only_init:
  assumes "read_file w path = Parsed (YDict [(YStr ''personal'', YDict [(YStr ''name'', YStr n)])])"
    and "mkdir w ''output''"
  shows "init w path ''output'' =
           Inr \<lparr>yaml_file = path, output_dir = ''output'',
                data = YDict [(YStr ''personal'', YDict [(YStr ''name'', YStr n)])],
                config = default_config, story = []\<rparr>"
proof -
  let ?doc = "YDict [(YStr ''personal'', YDict [(YStr ''name'', YStr n)])]"
  have load: "load_yaml (Parsed ?doc) = Inr ?doc"
    by (simp add: load_yaml_def lookup_def)
  have conf: "load_config ?doc = Inr default_config"
    by (simp add: load_config_def get_def lookup_def default_config_def)
  show ?thesis
    using assms by (simp add: init_def load conf)
qed

lemma default_config_values:
  "margin default_config = YFloat True ''0.6''"
  "section_spacing default_config = YFloat True ''0.08''"
  "section_order default_config = default_section_order"
  "footer default_config = YBool False"
  by (simp_all add: default_config_def)

text \<open>When the library refuses the name, the run ends with what the library raised.\<close>

lemma refused_name_run_fails:
  assumes "read_file w path = Parsed (YDict [(YStr ''personal'', YDict [(YStr ''name'', YStr n)])])"
    and "mkdir w ''output''"
    and "new_paragraph w default_config Name (YStr n) = Some e"
  shows "main w (prog # path # rest) = Inl (Uncaught e)"
proof -
  let ?doc = "YDict [(YStr ''personal'', YDict [(YStr ''name'', YStr n)])]"
  let ?g = "\<lparr>yaml_file = path, output_dir = ''output'', data = ?doc, config = default_config,
             story = []\<rparr>"
  have header: "build_header (new_paragraph w) ?g = Inl (Uncaught e)"
    using name_only_header [of ?g "YStr n" "new_paragraph w"] assms(3)
    by (simp add: default_config_values)
  have "assemble (new_paragraph w) ?g = Inl (Uncaught e)"
    by (simp add: assemble_def output_name_def get_def lookup_def header default_config_values)
  then show ?thesis
    by (simp add: main_def name_only_init [OF assms(1,2)] generate_def)
qed



subsection \<open>The same document gives the same blocks\<close>

text \<open>
  Beyond the document, a run is given the argument vector, with the path in it, and
  meets the other files, the output directory and the layout library. The program reads
  no clock, no random source and no environment variable, and goes through a mapping in
  the order of the document. No renderer looks at the path the generator keeps.
\<close>

lemma moved_simps [simp]:
  "data (moved path g) = data g"
  "config (moved path g) = config g"
  "story (moved path g) = story g"
  "output_dir (moved path g) = output_dir g"
  "yaml_file (moved path g) = path"
  "moved path (g\<lparr>story := s\<rparr>) = (moved path g)\<lparr>story := s\<rparr>"
  "moved path (g\<lparr>data := d\<rparr>) = (moved path g)\<lparr>data := d\<rparr>"
  by (simp_all add: moved_def)

lemma path_blindI:
  "(\<And>path g. f (moved path g) = map_sum id (moved path) (f g)) \<Longrightarrow> path_blind f"
  by (simp add: path_blind_def)

lemma path_blindD: "path_blind f \<Longrightarrow> f (moved path g) = map_sum id (moved path) (f g)"
  by (simp add: path_blind_def)

lemma path_blind_Inl [simp]: "path_blind (\<lambda>g. Inl e)"
  by (simp add: path_blind_def)

lemma path_blind_Inr [simp]: "path_blind (\<lambda>g. Inr g)"
  by (simp add: path_blind_def)

lemma path_blind_on_story [simp]:
  assumes "\<And>path g. f (moved path g) = f g"
  shows "path_blind (\<lambda>g. on_story (f g) g)"
proof (rule path_blindI)
  fix path g
  show "on_story (f (moved path g)) (moved path g) = map_sum id (moved path) (on_story (f g) g)"
    by (cases "f g (story g)") (simp_all add: assms on_story_def)
qed

lemma path_blind_bind:
  assumes "\<And>path g. m (moved path g) = m g" and "\<And>x. path_blind (f x)"
  shows "path_blind (\<lambda>g. bind (m g) (\<lambda>x. f x g))"
proof (rule path_blindI)
  fix path g
  show "bind (m (moved path g)) (\<lambda>x. f x (moved path g)) =
        map_sum id (moved path) (bind (m g) (\<lambda>x. f x g))"
    by (cases "m g") (simp_all add: assms(1) path_blindD [OF assms(2)])
qed

lemma path_blind_if:
  assumes "\<And>path g. c (moved path g) = c g" and "path_blind f" and "path_blind h"
  shows "path_blind (\<lambda>g. if c g then f g else h g)"
  using assms by (simp add: path_blind_def)

lemma path_blind_with_section [simp]:
  assumes "\<And>v. path_blind (body v)"
  shows "path_blind (with_section key body)"
proof (rule path_blindI)
  fix path g
  show "with_section key body (moved path g) = map_sum id (moved path) (with_section key body g)"
    by (cases "py_in key (data g)"; cases "py_item (data g) key")
       (simp_all add: with_section_def path_blindD [OF assms])
qed

lemma path_blind_then_data:
  assumes "path_blind f"
  shows "path_blind (\<lambda>g. bind (f g) (\<lambda>g'. Inr (g'\<lparr>data := h (data g')\<rparr>)))"
proof (rule path_blindI)
  fix path g
  show "bind (f (moved path g)) (\<lambda>g'. Inr (g'\<lparr>data := h (data g')\<rparr>)) =
        map_sum id (moved path) (bind (f g) (\<lambda>g'. Inr (g'\<lparr>data := h (data g')\<rparr>)))"
    by (cases "f g") (simp_all add: path_blindD [OF assms])
qed

lemma path_blind_build_header [simp]: "path_blind (build_header lib)"
proof -
  have "path_blind (\<lambda>g. case personal of
           YDict p \<Rightarrow>
             on_story (chain [emit (lib (config g)) [Paragraph (get p ''name'' (YStr [])) Name],
                              contact_line (lib (config g)) p,
                              links_line (lib (config g)) (get p ''links'' (YDict [])),
                              spacer_inch (lib (config g)) (section_spacing (config g))]) g
         | _ \<Rightarrow> Inl (Uncaught AttributeError))" for personal
    by (cases personal) simp_all
  then show ?thesis
    unfolding build_header_def by (intro path_blind_bind) simp_all
qed

lemma path_blind_summary_text:
  "path_blind (\<lambda>g. case summary_text of
       None \<Rightarrow> Inr g
     | Some t \<Rightarrow>
         if t \<noteq> [] then
           on_story (chain [add_section_header (lib (config g)) ''PROFESSIONAL SUMMARY'',
                            emit (lib (config g)) [Paragraph (YStr t) Summary],
                            spacer_inch (lib (config g)) (item_spacing (config g))]) g
         else Inr g)"
  by (cases summary_text) (simp_all add: path_blind_if)

lemma path_blind_build_summary [simp]: "path_blind (build_summary lib)"
  unfolding build_summary_def
  by (intro path_blind_bind path_blind_if path_blind_Inr path_blind_summary_text) simp_all

lemma path_blind_build_experience [simp]: "path_blind (build_experience lib)"
  unfolding build_experience_def
  by (intro path_blind_with_section path_blind_then_data path_blind_on_story) simp

lemma path_blind_build_education [simp]: "path_blind (build_education lib)"
  unfolding build_education_def
  by (intro path_blind_with_section path_blind_then_data path_blind_on_story) simp

lemma path_blind_build_skills [simp]: "path_blind (build_skills lib)"
  unfolding build_skills_def
  by (intro path_blind_with_section path_blind_on_story) (simp split: yaml.split)

lemma path_blind_build_projects [simp]: "path_blind (build_projects lib)"
  by (simp add: build_projects_def)

lemma path_blind_build_certifications [simp]: "path_blind (build_certifications lib)"
  by (simp add: build_certifications_def)

lemma path_blind_build_awards [simp]: "path_blind (build_awards lib)"
  by (simp add: build_awards_def)

lemma path_blind_build_publications [simp]: "path_blind (build_publications lib)"
  by (simp add: build_publications_def)

lemma path_blind_build_languages [simp]: "path_blind (build_languages lib)"
  unfolding build_languages_def
  by (intro path_blind_with_section path_blind_on_story) (simp split: yaml.split)

lemma path_blind_build_volunteer [simp]: "path_blind (build_volunteer lib)"
  by (simp add: build_volunteer_def)

lemma path_blind_add_footer [simp]: "path_blind (add_footer lib)"
  unfolding add_footer_def by (intro path_blind_on_story) simp

lemma path_blind_operations: "list_all path_blind (operations lib)"
  by (simp add: operations_def section_builders_def)






subsection \<open>Blank highlights\<close>

text \<open>\<^verbatim>\<open>highlight.strip()\<close> is empty exactly when the highlight is blank.\<close>

lemma py_chars_nonempty: "c \<in> set (py_chars s) \<Longrightarrow> c \<noteq> []"
  by (induction s rule: py_chars.induct) auto

lemma concat_empty_iff: "(\<And>c. c \<in> set cs \<Longrightarrow> c \<noteq> []) \<Longrightarrow> concat cs = [] \<longleftrightarrow> cs = []"
  by (cases cs) auto

lemma dropWhile_rev_dropWhile_empty:
  "dropWhile P (rev (dropWhile P cs)) = [] \<longleftrightarrow> list_all P cs"
proof -
  have "dropWhile P (rev (dropWhile P cs)) = [] \<longleftrightarrow> list_all P (dropWhile P cs)"
    by (simp add: dropWhile_eq_Nil_conv list_all_iff)
  also have "\<dots> \<longleftrightarrow> dropWhile P cs = []"
    by (metis dropWhile_eq_Nil_conv dropWhile_idem list_all_iff set_empty list.pred_inject(1))
  also have "\<dots> \<longleftrightarrow> list_all P cs"
    by (simp add: dropWhile_eq_Nil_conv list_all_iff)
  finally show ?thesis .
qed

lemma py_strip_blank: "py_strip s = [] \<longleftrightarrow> list_all is_space (py_chars s)"
proof -
  have "\<And>c. c \<in> set (rev (dropWhile is_space (rev (dropWhile is_space (py_chars s))))) \<Longrightarrow> c \<noteq> []"
    by (metis py_chars_nonempty set_dropWhileD set_rev)
  then have "py_strip s = [] \<longleftrightarrow> rev (dropWhile is_space (rev (dropWhile is_space (py_chars s)))) = []"
    unfolding py_strip_def by (rule concat_empty_iff)
  then show ?thesis
    by (simp only: rev_is_Nil_conv dropWhile_rev_dropWhile_empty)
qed

lemma py_strip_is_blank: "py_strip t = [] \<longleftrightarrow> blank t"
  by (simp add: blank_def py_strip_blank)

lemma experience_highlight_string:
  "experience_highlight mk (YStr h) s =
     (if blank h then Inr s else emit mk [bullet_line (YStr h)] s)"
proof -
  have "blank []" by (simp add: blank_def)
  then show ?thesis
    by (cases "h = []") (auto simp: experience_highlight_def only_if_def py_strip_is_blank)
qed

text \<open>
  The loop of the experience renderer writes the bullets of the highlights that are not
  blank, in their order; the loop of the other three writes a bullet for every highlight.
\<close>

lemma experience_highlights_filtered:
  assumes "\<And>h. h \<in> set hs \<Longrightarrow> raised mk (bullet_line (YStr h)) = []"
  shows "for_each (experience_highlight mk) (map YStr hs) s =
           Inr (s @ map (\<lambda>h. bullet_line (YStr h)) (filter (\<lambda>h. \<not> blank h) hs))"
  using assms
  by (induction hs arbitrary: s) (simp_all add: experience_highlight_string emit_one)

lemma plain_highlights_all:
  assumes "\<And>h. h \<in> set hs \<Longrightarrow> raised mk (bullet_line h) = []"
  shows "iterate (YList hs) (\<lambda>h. emit mk [bullet_line h]) s = Inr (s @ map bullet_line hs)"
  using assms by (simp add: iterate_def compute_def for_each_emit)

text \<open>
  C3 holds for the experience renderer only. At the same list of highlights, a blank one
  and a proper one, and with a library that takes every text, the education renderer
  writes a bullet for each, the blank one included, where the experience renderer writes
  a bullet for the proper one only.
\<close>

theorem education_keeps_blank_highlight:
  "map_sum id story
     (build_education accepting
        \<lparr>yaml_file = ''resume.yaml'', output_dir = ''output'',
         data = YDict [(YStr ''personal'', YDict [(YStr ''name'', YStr ''Ada'')]),
                       (YStr ''education'',
                        YList [YDict [(YStr ''degree'', YStr ''BSc''),
                                      (YStr ''highlights'', YList [YStr ''  '', YStr ''Thesis''])]])],
         config = default_config, story = []\<rparr>) =
     Inr [Paragraph (YStr ''EDUCATION'') SectionHeader, HRFlowable,
          Table [[Paragraph (YStr ''BSc'') ItemTitle, Paragraph (YStr '''') DateRange]],
          bullet_line (YStr ''  ''), bullet_line (YStr ''Thesis''),
          Spacer (YFloat True ''0.08'')] \<and>
   map_sum id story
     (build_experience accepting
        \<lparr>yaml_file = ''resume.yaml'', output_dir = ''output'',
         data = YDict [(YStr ''personal'', YDict [(YStr ''name'', YStr ''Ada'')]),
                       (YStr ''experience'',
                        YList [YDict [(YStr ''title'', YStr ''Engineer''),
                                      (YStr ''highlights'', YList [YStr ''  '', YStr ''Thesis''])]])],
         config = default_config, story = []\<rparr>) =
     Inr [Paragraph (YStr ''PROFESSIONAL EXPERIENCE'') SectionHeader, HRFlowable,
          Table [[Paragraph (YStr ''Engineer'') ItemTitle, Paragraph (YStr '''') DateRange]],
          Spacer (YFloat True ''0.03''), bullet_line (YStr ''Thesis''),
          Spacer (YFloat True ''0.08'')]"
  by code_simp

subsection \<open>The theorems at concrete inputs\<close>

text \<open>The examples of the specification, and a start and an end that are numbers.\<close>

theorem format_date_range_witness:
  "format_date_range (YStr ''2020'') YNull (YBool False) = ''2020'' \<and>
   format_date_range (YStr ''2020'') (YStr ''2022'') (YBool False) = ''2020 - 2022'' \<and>
   format_date_range (YStr ''2020'') YNull (YBool True) = ''2020 - Present'' \<and>
   format_date_range YNull (YStr ''2022'') (YBool True) = '''' \<and>
   format_date_range (YStr ''2020'') (YStr ''PreSent'') (YBool False) = ''2020 - Present'' \<and>
   format_date_range (YInt 2020) (YInt 2022) (YBool False) = ''2020 - 2022''"
  by (simp only: format_date_range_rules) code_simp

text \<open>A document whose \<open>personal\<close> mapping has an e-mail address and no name.\<close>

theorem invalid_input_fails_witness:
  "read_file (world_with ''resume.yaml''
       (Parsed (YDict [(YStr ''personal'', YDict [(YStr ''email'', YStr ''ada@example.org'')])])))
     ''resume.yaml'' =
     Parsed (YDict [(YStr ''personal'', YDict [(YStr ''email'', YStr ''ada@example.org'')])]) \<and>
   lookup [(YStr ''personal'', YDict [(YStr ''email'', YStr ''ada@example.org'')])] ''personal'' =
     Some (YDict [(YStr ''email'', YStr ''ada@example.org'')]) \<and>
   lookup [(YStr ''email'', YStr ''ada@example.org'')] ''name'' = None \<and>
   load_yaml (read_file (world_with ''resume.yaml''
       (Parsed (YDict [(YStr ''personal'', YDict [(YStr ''email'', YStr ''ada@example.org'')])])))
     ''resume.yaml'') = Inl (ValidationError Missing_name) \<and>
   exit_status (main (world_with ''resume.yaml''
       (Parsed (YDict [(YStr ''personal'', YDict [(YStr ''email'', YStr ''ada@example.org'')])])))
     [''resume_generator.py'', ''resume.yaml'']) = 1 \<and>
   main (world_with ''resume.yaml''
       (Parsed (YDict [(YStr ''personal'', YDict [(YStr ''email'', YStr ''ada@example.org'')])])))
     [''resume_generator.py'', ''resume.yaml''] = Inl (ValidationError Missing_name)"
proof -
  let ?p = "[(YStr ''email'', YStr ''ada@example.org'')]"
  let ?d = "[(YStr ''personal'', YDict ?p)]"
  let ?w = "world_with ''resume.yaml'' (Parsed (YDict ?d))"
  have a: "read_file ?w ''resume.yaml'' = Parsed (YDict ?d)"
    by (simp add: world_with_def)
  have b: "lookup ?d ''personal'' = Some (YDict ?p)"
    by (simp add: lookup_def)
  have c: "lookup ?p ''name'' = None"
    by (simp add: lookup_def)
  have m: "mkdir ?w ''output''"
    by (simp add: world_with_def)
  from a b c
  have "\<exists>d p. read_file ?w ''resume.yaml'' = Parsed (YDict d) \<and> lookup d ''personal'' = Some (YDict p) \<and>
          lookup p ''name'' = None \<and> ValidationError Missing_name = ValidationError Missing_name"
    by blast
  then have "load_yaml (read_file ?w ''resume.yaml'') = Inl (ValidationError Missing_name) \<and>
      exit_status (main ?w [''resume_generator.py'', ''resume.yaml'']) = 1 \<and>
      (mkdir ?w ''output'' \<longrightarrow>
         main ?w [''resume_generator.py'', ''resume.yaml''] = Inl (ValidationError Missing_name))"
    by (intro invalid_input_fails) blast
  with a b c m show ?thesis by blast
qed

text \<open>A document whose list of skills is empty.\<close>

theorem empty_section_emits_nothing_witness:
  "(''skills'', build_skills accepting) \<in> set (section_builders accepting) \<and>
   lookup [(YStr ''personal'', YDict [(YStr ''name'', YStr ''Ada'')]), (YStr ''skills'', YList [])] ''skills'' =
     Some (YList []) \<and>
   build_skills accepting
     \<lparr>yaml_file = ''resume.yaml'', output_dir = ''output'',
      data = YDict [(YStr ''personal'', YDict [(YStr ''name'', YStr ''Ada'')]), (YStr ''skills'', YList [])],
      config = default_config, story = [HRFlowable]\<rparr> =
   Inr \<lparr>yaml_file = ''resume.yaml'', output_dir = ''output'',
        data = YDict [(YStr ''personal'', YDict [(YStr ''name'', YStr ''Ada'')]), (YStr ''skills'', YList [])],
        config = default_config, story = [HRFlowable]\<rparr>"
proof -
  let ?d = "[(YStr ''personal'', YDict [(YStr ''name'', YStr ''Ada'')]), (YStr ''skills'', YList [])]"
  let ?g = "\<lparr>yaml_file = ''resume.yaml'', output_dir = ''output'', data = YDict ?d,
             config = default_config, story = [HRFlowable]\<rparr>"
  have a: "(''skills'', build_skills accepting) \<in> set (section_builders accepting)"
    by (simp add: section_builders_def)
  have b: "lookup ?d ''skills'' = Some (YList [])"
    by (simp add: lookup_def)
  have "build_skills accepting ?g = Inr ?g"
    by (rule empty_section_emits_nothing [OF a, of ?g ?d]) (simp_all add: b)
  with a b show ?thesis by simp
qed

text \<open>
  The order \<open>education\<close>, \<open>bogus\<close>, \<open>experience\<close> in the configuration of a document
  that has its experience before its education: this is the generator the program makes
  of it; its assembler puts the education section first, and reports the unknown name;
  and the run ends with exit status 0.
\<close>

theorem section_order_respected_witness:
  "init (world_with ''resume.yaml''
           (Parsed (YDict [(YStr ''personal'', YDict [(YStr ''name'', YStr ''Ada'')]),
                           (YStr ''experience'', YList [YDict [(YStr ''title'', YStr ''Engineer'')]]),
                           (YStr ''education'', YList [YDict [(YStr ''degree'', YStr ''BSc'')]]),
                           (YStr ''config'',
                            YDict [(YStr ''section_order'',
                                    YList [YStr ''education'', YStr ''bogus'', YStr ''experience''])])])))
     ''resume.yaml'' ''output'' =
   Inr \<lparr>yaml_file = ''resume.yaml'', output_dir = ''output'',
        data = YDict [(YStr ''personal'', YDict [(YStr ''name'', YStr ''Ada'')]),
                      (YStr ''experience'', YList [YDict [(YStr ''title'', YStr ''Engineer'')]]),
                      (YStr ''education'', YList [YDict [(YStr ''degree'', YStr ''BSc'')]]),
                      (YStr ''config'',
                       YDict [(YStr ''section_order'',
                               YList [YStr ''education'', YStr ''bogus'', YStr ''experience''])])],
        config = default_config
          \<lparr>section_order := YList (map YStr [''education'', ''bogus'', ''experience''])\<rparr>,
        story = []\<rparr> \<and>
   map_sum id (\<lambda>(output_file, m, g, out). (output_file, story g, out))
     (assemble accepting
        \<lparr>yaml_file = ''resume.yaml'', output_dir = ''output'',
         data = YDict [(YStr ''personal'', YDict [(YStr ''name'', YStr ''Ada'')]),
                       (YStr ''experience'', YList [YDict [(YStr ''title'', YStr ''Engineer'')]]),
                       (YStr ''education'', YList [YDict [(YStr ''degree'', YStr ''BSc'')]]),
                       (YStr ''config'',
                        YDict [(YStr ''section_order'',
                                YList [YStr ''education'', YStr ''bogus'', YStr ''experience''])])],
         config = default_config
           \<lparr>section_order := YList (map YStr [''education'', ''bogus'', ''experience''])\<rparr>,
         story = []\<rparr>) =
   Inr ((''output'', ''Ada_resume.pdf''),
        [Paragraph (YStr ''Ada'') Name, Spacer (YFloat True ''0.08''),
         Paragraph (YStr ''EDUCATION'') SectionHeader, HRFlowable,
         Table [[Paragraph (YStr ''BSc'') ItemTitle, Paragraph (YStr '''') DateRange]],
         Spacer (YFloat True ''0.08''),
         Paragraph (YStr ''PROFESSIONAL EXPERIENCE'') SectionHeader, HRFlowable,
         Table [[Paragraph (YStr ''Engineer'') ItemTitle, Paragraph (YStr '''') DateRange]],
         Spacer (YFloat True ''0.08'')],
        [Unknown_section ''bogus'']) \<and>
   exit_status
     (main (world_with ''resume.yaml''
              (Parsed (YDict [(YStr ''personal'', YDict [(YStr ''name'', YStr ''Ada'')]),
                              (YStr ''experience'', YList [YDict [(YStr ''title'', YStr ''Engineer'')]]),
                              (YStr ''education'', YList [YDict [(YStr ''degree'', YStr ''BSc'')]]),
                              (YStr ''config'',
                               YDict [(YStr ''section_order'',
                                       YList [YStr ''education'', YStr ''bogus'', YStr ''experience''])])])))
        [''resume_generator.py'', ''resume.yaml'']) = 0"
proof -
  let ?doc = "YDict [(YStr ''personal'', YDict [(YStr ''name'', YStr ''Ada'')]),
                     (YStr ''experience'', YList [YDict [(YStr ''title'', YStr ''Engineer'')]]),
                     (YStr ''education'', YList [YDict [(YStr ''degree'', YStr ''BSc'')]]),
                     (YStr ''config'',
                      YDict [(YStr ''section_order'',
                              YList [YStr ''education'', YStr ''bogus'', YStr ''experience''])])]"
  let ?g = "\<lparr>yaml_file = ''resume.yaml'', output_dir = ''output'', data = ?doc,
             config = default_config
               \<lparr>section_order := YList (map YStr [''education'', ''bogus'', ''experience''])\<rparr>,
             story = []\<rparr>"
  have order: "section_order (config ?g) = YList (map YStr [''education'', ''bogus'', ''experience''])"
    by simp
  have a: "init (world_with ''resume.yaml'' (Parsed ?doc)) ''resume.yaml'' ''output'' = Inr ?g"
    by code_simp
  have b: "map_sum id (\<lambda>(output_file, m, g, out). (output_file, story g, out)) (assemble accepting ?g) =
      Inr ((''output'', ''Ada_resume.pdf''),
           [Paragraph (YStr ''Ada'') Name, Spacer (YFloat True ''0.08''),
            Paragraph (YStr ''EDUCATION'') SectionHeader, HRFlowable,
            Table [[Paragraph (YStr ''BSc'') ItemTitle, Paragraph (YStr '''') DateRange]],
            Spacer (YFloat True ''0.08''),
            Paragraph (YStr ''PROFESSIONAL EXPERIENCE'') SectionHeader, HRFlowable,
            Table [[Paragraph (YStr ''Engineer'') ItemTitle, Paragraph (YStr '''') DateRange]],
            Spacer (YFloat True ''0.08'')],
           [Unknown_section ''bogus''])"
    by (simp only: section_order_respected [OF order]) code_simp
  have c: "exit_status (main (world_with ''resume.yaml'' (Parsed ?doc))
             [''resume_generator.py'', ''resume.yaml'']) = 0"
    by code_simp
  from a b c show ?thesis
    by (intro conjI)
qed

text \<open>A document that sets the margin and the font and leaves the rest.\<close>

theorem load_config_resolves_witness:
  "load_config
     (YDict [(YStr ''personal'', YDict [(YStr ''name'', YStr ''Ada'')]),
             (YStr ''config'',
              YDict [(YStr ''margin'', YInt 1),
                     (YStr ''fonts'', YDict [(YStr ''name'', YStr ''Times-Roman'')])])]) =
   Inr \<lparr>font_name = YStr ''Times-Roman'', font_name_bold = YStr ''Helvetica-Bold'',
        font_name_italic = YStr ''Helvetica-Oblique'', name_size = YInt 20,
        section_header_size = YInt 12, title_size = YInt 10, body_size = YInt 9,
        margin = YInt 1, section_spacing = YFloat True ''0.08'',
        item_spacing = YFloat True ''0.06'',
        section_order =
          YList [YStr ''summary'', YStr ''experience'', YStr ''education'', YStr ''skills'',
                 YStr ''projects'', YStr ''certifications'', YStr ''awards'',
                 YStr ''publications'', YStr ''languages'', YStr ''volunteer''],
        footer = YBool False\<rparr>"
  using load_config_resolves
    [of "[(YStr ''personal'', YDict [(YStr ''name'', YStr ''Ada'')]),
          (YStr ''config'',
           YDict [(YStr ''margin'', YInt 1),
                  (YStr ''fonts'', YDict [(YStr ''name'', YStr ''Times-Roman'')])])]"
        "[(YStr ''margin'', YInt 1), (YStr ''fonts'', YDict [(YStr ''name'', YStr ''Times-Roman'')])]"
        "[(YStr ''name'', YStr ''Times-Roman'')]"]
  by (simp add: lookup_def get_def)



text \<open>The header and the summary, on a story that already holds a block.\<close>

theorem story_append_only_witness:
  "set [build_header accepting, build_summary accepting] \<subseteq> set (operations accepting) \<and>
   chain [build_header accepting, build_summary accepting]
     \<lparr>yaml_file = ''resume.yaml'', output_dir = ''output'',
      data = YDict [(YStr ''personal'', YDict [(YStr ''name'', YStr ''Ada'')]),
                    (YStr ''summary'', YStr ''Analyst.'')],
      config = default_config, story = [HRFlowable]\<rparr> =
   Inr \<lparr>yaml_file = ''resume.yaml'', output_dir = ''output'',
        data = YDict [(YStr ''personal'', YDict [(YStr ''name'', YStr ''Ada'')]),
                      (YStr ''summary'', YStr ''Analyst.'')],
        config = default_config,
        story = [HRFlowable, Paragraph (YStr ''Ada'') Name, Spacer (YFloat True ''0.08''),
                 Paragraph (YStr ''PROFESSIONAL SUMMARY'') SectionHeader, HRFlowable,
                 Paragraph (YStr ''Analyst.'') Summary, Spacer (YFloat True ''0.06'')]\<rparr> \<and>
   prefix [HRFlowable]
     [HRFlowable, Paragraph (YStr ''Ada'') Name, Spacer (YFloat True ''0.08''),
      Paragraph (YStr ''PROFESSIONAL SUMMARY'') SectionHeader, HRFlowable,
      Paragraph (YStr ''Analyst.'') Summary, Spacer (YFloat True ''0.06'')]"
proof -
  let ?d = "YDict [(YStr ''personal'', YDict [(YStr ''name'', YStr ''Ada'')]),
                   (YStr ''summary'', YStr ''Analyst.'')]"
  let ?g = "\<lparr>yaml_file = ''resume.yaml'', output_dir = ''output'', data = ?d,
             config = default_config, story = [HRFlowable]\<rparr>"
  let ?s = "[HRFlowable, Paragraph (YStr ''Ada'') Name, Spacer (YFloat True ''0.08''),
             Paragraph (YStr ''PROFESSIONAL SUMMARY'') SectionHeader, HRFlowable,
             Paragraph (YStr ''Analyst.'') Summary, Spacer (YFloat True ''0.06'')]"
  let ?h = "\<lparr>yaml_file = ''resume.yaml'', output_dir = ''output'', data = ?d,
             config = default_config, story = ?s\<rparr>"
  have a: "set [build_header accepting, build_summary accepting] \<subseteq> set (operations accepting)"
    by (simp add: operations_def section_builders_def)
  have b: "chain [build_header accepting, build_summary accepting] ?g = Inr ?h"
    by code_simp
  from story_append_only
    [where ops = "[build_header accepting, build_summary accepting]" and lib = accepting
       and g = ?g and g' = ?h] a b
  have "prefix (story ?g) (story ?h)" by blast
  with a b show ?thesis by simp
qed

text \<open>A name with no value, and a name that is the empty string.\<close>

theorem name_value_not_validated_witness:
  "lookup [(YStr ''personal'', YDict [(YStr ''name'', YNull)])] ''personal'' =
     Some (YDict [(YStr ''name'', YNull)]) \<and>
   lookup [(YStr ''name'', YNull)] ''name'' = Some YNull \<and>
   load_yaml (Parsed (YDict [(YStr ''personal'', YDict [(YStr ''name'', YNull)])])) =
     Inr (YDict [(YStr ''personal'', YDict [(YStr ''name'', YNull)])]) \<and>
   load_yaml (Parsed (YDict [(YStr ''personal'', YDict [(YStr ''name'', YStr '''')])])) =
     Inr (YDict [(YStr ''personal'', YDict [(YStr ''name'', YStr '''')])])"
proof -
  have a: "lookup [(YStr ''personal'', YDict [(YStr ''name'', v)])] ''personal'' =
             Some (YDict [(YStr ''name'', v)])" for v
    by (simp add: lookup_def)
  have b: "lookup [(YStr ''name'', v)] ''name'' = Some v" for v
    by (simp add: lookup_def)
  from name_value_not_validated [OF a b] a b show ?thesis
    by simp
qed

end
